theory Spec2Isabelle
  imports Complex_Main "HOL-Library.Sublist"
begin

section \<open>JavaScript values\<close>

text \<open>
  Request bodies are parsed JSON, and the handlers test their fields by truthiness. A number
  is a double: a finite value (both zeros are \<open>Fin 0\<close>), an infinity or NaN. Objects and
  arrays are opaque here: \<open>JObj\<close> is a plain object or an array of a JSON body, which is
  always truthy and which no schema cast below accepts (an object that carries a string
  \<open>_id\<close>, which the cast of \<open>String\<close> reads as that string, is not among the values).
\<close>

datatype jsnum = NaN | Fin rat | PosInf | NegInf

datatype jsval =
    JUndefined
  | JNull
  | JBool bool
  | JNum jsnum
  | JStr string
  | JDate int
  | JObj

fun truthy :: "jsval \<Rightarrow> bool" where
  "truthy JUndefined = False"
| "truthy JNull = False"
| "truthy (JBool b) = b"
| "truthy (JNum NaN) = False"
| "truthy (JNum (Fin r)) = (r \<noteq> 0)"
| "truthy (JNum PosInf) = True"
| "truthy (JNum NegInf) = True"
| "truthy (JStr s) = (s \<noteq> [])"
| "truthy (JDate t) = True"
| "truthy JObj = True"

text \<open>A destructuring default \<open>{ x = d }\<close> applies exactly when the field is undefined.\<close>

definition dflt :: "jsval \<Rightarrow> jsval \<Rightarrow> jsval" where
  "dflt v d = (if v = JUndefined then d else v)"

section \<open>Strings\<close>

text \<open>
  Strings are byte strings here: \<open>toLowerCase\<close> maps the letters A to Z, and white space is
  the ASCII white space (tab, line feed, vertical tab, form feed, carriage return, space).
\<close>

definition lower_char :: "char \<Rightarrow> char" where
  "lower_char c =
     (case map_of (zip ''ABCDEFGHIJKLMNOPQRSTUVWXYZ'' ''abcdefghijklmnopqrstuvwxyz'') c of
        None \<Rightarrow> c
      | Some d \<Rightarrow> d)"

definition toLowerCase :: "string \<Rightarrow> string" where
  "toLowerCase s = map lower_char s"

definition js_ws :: "char \<Rightarrow> bool" where
  "js_ws c = ((of_char c :: nat) \<in> {9, 10, 11, 12, 13, 32})"

definition js_trim :: "string \<Rightarrow> string" where
  "js_trim s = rev (dropWhile js_ws (rev (dropWhile js_ws s)))"

text \<open>The value of a decimal digit, and of a hexadecimal one.\<close>

definition digit_val :: "char \<Rightarrow> int option" where
  "digit_val c = map_of (zip ''0123456789'' [0, 1, 2, 3, 4, 5, 6, 7, 8, 9]) c"

definition hex_val :: "char \<Rightarrow> int option" where
  "hex_val c =
     map_of (zip ''0123456789abcdefABCDEF''
               [0, 1, 2, 3, 4, 5, 6, 7, 8, 9, 10, 11, 12, 13, 14, 15, 10, 11, 12, 13, 14, 15]) c"

definition is_digit :: "char \<Rightarrow> bool" where
  "is_digit c = (digit_val c \<noteq> None)"

text \<open>
  The value of a run of digits in a radix, most significant first; \<open>None\<close> when a
  character is no digit of the radix.
\<close>

fun digits_value :: "int \<Rightarrow> int \<Rightarrow> string \<Rightarrow> int option" where
  "digits_value radix acc [] = Some acc"
| "digits_value radix acc (c # cs) =
     (case hex_val c of
        None \<Rightarrow> None
      | Some d \<Rightarrow> if d < radix then digits_value radix (radix * acc + d) cs else None)"

text \<open>
  \<open>Number(s)\<close> on a string: white space around is dropped; the empty string is 0; then a
  literal \<open>0x\<close>, \<open>0o\<close> or \<open>0b\<close> with its digits, or an optional sign before \<open>Infinity\<close> or
  before a decimal literal (digits, an optional fraction, an optional exponent); anything
  else is NaN. The value is the exact rational; the engine rounds it to a double.
\<close>

definition radix_literal :: "string \<Rightarrow> int option" where
  "radix_literal t =
     (case t of
        c0 # c1 # ds \<Rightarrow>
          if c0 = CHR ''0'' \<and> ds \<noteq> [] then
            (if c1 = CHR ''x'' \<or> c1 = CHR ''X'' then digits_value 16 0 ds
             else if c1 = CHR ''o'' \<or> c1 = CHR ''O'' then digits_value 8 0 ds
             else if c1 = CHR ''b'' \<or> c1 = CHR ''B'' then digits_value 2 0 ds
             else None)
          else None
      | _ \<Rightarrow> None)"

definition nonempty_digits :: "string \<Rightarrow> int option" where
  "nonempty_digits ds = (if ds = [] then None else digits_value 10 0 ds)"

definition exponent_part :: "string \<Rightarrow> int option" where
  "exponent_part r =
     (case r of
        [] \<Rightarrow> Some 0
      | c # cs \<Rightarrow>
          if c = CHR ''e'' \<or> c = CHR ''E'' then
            (case cs of
               [] \<Rightarrow> None
             | sg # ds \<Rightarrow>
                 if sg = CHR ''-'' then map_option uminus (nonempty_digits ds)
                 else if sg = CHR ''+'' then nonempty_digits ds
                 else nonempty_digits cs)
          else None)"

definition decimal_literal :: "string \<Rightarrow> rat option" where
  "decimal_literal t =
     (let ip = takeWhile is_digit t;
          r1 = dropWhile is_digit t;
          fp = (case r1 of [] \<Rightarrow> [] | c # cs \<Rightarrow> if c = CHR ''.'' then takeWhile is_digit cs else []);
          r2 = (case r1 of [] \<Rightarrow> [] | c # cs \<Rightarrow> if c = CHR ''.'' then dropWhile is_digit cs else r1)
      in if ip = [] \<and> fp = [] then None
         else
           (case digits_value 10 0 (ip @ fp) of
              None \<Rightarrow> None
            | Some m \<Rightarrow>
                (case exponent_part r2 of
                   None \<Rightarrow> None
                 | Some e \<Rightarrow>
                     Some (of_int m / 10 ^ length fp
                           * (if 0 \<le> e then 10 ^ nat e else 1 / 10 ^ nat (- e))))))"

definition stringToNumber :: "string \<Rightarrow> jsnum" where
  "stringToNumber s =
     (let t = js_trim s
      in if t = [] then Fin 0
         else
           (case radix_literal t of
              Some v \<Rightarrow> Fin (of_int v)
            | None \<Rightarrow>
                (let neg = (case t of [] \<Rightarrow> False | c # cs \<Rightarrow> c = CHR ''-'');
                     u = (case t of
                            [] \<Rightarrow> []
                          | c # cs \<Rightarrow> if c = CHR ''-'' \<or> c = CHR ''+'' then cs else t)
                 in if u = ''Infinity'' then (if neg then NegInf else PosInf)
                    else
                      (case decimal_literal u of
                         None \<Rightarrow> NaN
                       | Some r \<Rightarrow> Fin (if neg then - r else r)))))"

section \<open>Errors and collaborators\<close>

text \<open>
  The handlers answer with a status code and a message: 400 is \<open>ValidationError\<close>, 401 is
  \<open>Unauthorized\<close> (\<open>InvalidCredentials\<close> at login), 403 is \<open>Forbidden\<close>, 404 is
  \<open>NotFound\<close>, 409 is \<open>Conflict\<close> and 500 is \<open>InternalError\<close>. The 403 of login carries
  the ban: its reason and its end.
\<close>

datatype error =
    ValidationError string
  | Unauthorized string
  | InvalidCredentials string
  | Forbidden string "(string \<times> int option) option"
  | NotFound string
  | Conflict string
  | InternalError string

datatype role = Member | Admin

text \<open>The payload of a token: what login signs, and what verification gives back.\<close>

record payload =
  p_id :: "string option"
  p_email :: string
  p_username :: string
  p_role :: "role option"

text \<open>
  What the handlers call but the repository does not define: the identifier check of the
  object-document mapper and its cast of a valid identifier to an ObjectId (\<open>castObjectId\<close>
  gives that ObjectId as \<open>toString()\<close> prints it, which is how \<open>_id\<close> is kept here), the
  engine's printing of a number or a date, its date parser (\<open>None\<close> when \<open>getTime()\<close> is NaN),
  the password hasher, the token library (\<open>jwtVerify\<close> is \<open>None\<close> when verification throws),
  the identifier the store gives a new document, and the clock.
\<close>

record externals =
  objectIdValid :: "string \<Rightarrow> bool"
  castObjectId :: "string \<Rightarrow> string"
  printed :: "jsval \<Rightarrow> string"
  newDate :: "jsval \<Rightarrow> int option"
  bcryptCompare :: "string \<Rightarrow> string \<Rightarrow> bool"
  bcryptHash :: "string \<Rightarrow> string"
  jwtSign :: "payload \<Rightarrow> string"
  jwtVerify :: "string \<Rightarrow> payload option"
  freshId :: string
  now :: int

section \<open>Schema casts\<close>

text \<open>
  A document takes a value for a path through the cast of the path's type, and \<open>save\<close>
  rejects the document when a cast has failed or a validator refuses the value; the
  handlers answer that with 500. \<open>None\<close> is the failed cast.

  The cast of \<open>Number\<close>: a number stays, unless it is NaN; a string and a boolean go
  through \<open>Number(.)\<close>, which must not give NaN; the empty string, \<open>null\<close> and an absent
  value give no number, which a required path refuses; an object or an array fails.
\<close>

definition castNumber :: "jsval \<Rightarrow> jsnum option" where
  "castNumber v =
     (case v of
        JNum n \<Rightarrow> if n = NaN then None else Some n
      | JStr s \<Rightarrow> if s = [] \<or> stringToNumber s = NaN then None else Some (stringToNumber s)
      | JBool b \<Rightarrow> Some (Fin (if b then 1 else 0))
      | JDate t \<Rightarrow> Some (Fin (of_int t))
      | _ \<Rightarrow> None)"

text \<open>
  The cast of \<open>String\<close>: a string stays, \<open>null\<close> and an absent value stay no value, a
  boolean, a number and a date are printed, an object or an array fails.
\<close>

definition castString :: "externals \<Rightarrow> jsval \<Rightarrow> jsval option" where
  "castString ext v =
     (case v of
        JStr s \<Rightarrow> Some (JStr s)
      | JNull \<Rightarrow> Some JNull
      | JUndefined \<Rightarrow> Some JNull
      | JBool b \<Rightarrow> Some (JStr (if b then ''true'' else ''false''))
      | JNum n \<Rightarrow> Some (JStr (printed ext (JNum n)))
      | JDate t \<Rightarrow> Some (JStr (printed ext (JDate t)))
      | JObj \<Rightarrow> None)"

section \<open>Bookings\<close>

datatype status = Pending | Approved | Cancelled | Rescheduled

text \<open>
  A document of \<open>BookingSchema\<close>; \<open>bid\<close> is its \<open>_id\<close>, \<open>owner\<close> its \<open>user\<close>, \<open>btype\<close> its
  \<open>type\<close> and \<open>userNotes\<close> its \<open>notes\<close>. The paths that take a value of the request keep
  it as the schema casts it: \<open>duration\<close> a number, \<open>type\<close> and \<open>platform\<close> strings, the
  notes and details strings or \<open>null\<close>. The schema puts no bound on \<open>duration\<close>: it is
  \<open>{ type: Number, required: true }\<close>.
\<close>

record booking_doc =
  bid :: string
  owner :: string
  btype :: jsval
  duration :: jsval
  platform :: jsval
  platformDetails :: jsval
  scheduledAt :: int
  status :: status
  userNotes :: jsval
  adminNote :: jsval
  rescheduledTo :: "int option"
  createdAt :: int
  updatedAt :: int

record create_body =
  cb_type :: jsval
  cb_duration :: jsval
  cb_platform :: jsval
  cb_platformDetails :: jsval
  cb_scheduledAt :: jsval
  cb_notes :: jsval

record patch_body =
  pb_action :: jsval
  pb_adminNote :: jsval
  pb_rescheduledTo :: jsval

text \<open>The \<open>enum\<close> of the path \<open>type\<close>.\<close>

definition bookingTypes :: "string list" where
  "bookingTypes = [''appointment'', ''session'', ''callback'']"

definition findBookingById :: "booking_doc list \<Rightarrow> string \<Rightarrow> booking_doc option" where
  "findBookingById store i = find (\<lambda>b. bid b = i) store"

text \<open>
  \<open>new Booking({...})\<close> followed by \<open>save()\<close>, for an owner already cast: the document that
  is stored, or \<open>None\<close> when \<open>save\<close> rejects it. The type must be a string of the \<open>enum\<close>
  (any other value is cast to a string outside it, or not at all), the duration must cast
  to a number, the platform to a string that is not empty, the details and the notes to a
  string or \<open>null\<close>. The new document gets the schema's defaults: an empty \<open>adminNote\<close> and
  no \<open>rescheduledTo\<close>.
\<close>

definition newBooking :: "externals \<Rightarrow> string \<Rightarrow> create_body \<Rightarrow> int \<Rightarrow> booking_doc option" where
  "newBooking ext u body scheduledDate =
     (case castNumber (cb_duration body) of
        None \<Rightarrow> None
      | Some n \<Rightarrow>
          (case castString ext (cb_platform body) of
             Some (JStr p) \<Rightarrow>
               (case castString ext (dflt (cb_platformDetails body) (JStr [])) of
                  None \<Rightarrow> None
                | Some pd \<Rightarrow>
                    (case castString ext (dflt (cb_notes body) (JStr [])) of
                       None \<Rightarrow> None
                     | Some nt \<Rightarrow>
                         if cb_type body \<in> JStr ` set bookingTypes \<and> p \<noteq> []
                         then Some \<lparr> bid = freshId ext, owner = u,
                                btype = cb_type body, duration = JNum n,
                                platform = JStr p, platformDetails = pd,
                                scheduledAt = scheduledDate, status = Pending,
                                userNotes = nt, adminNote = JStr [], rescheduledTo = None,
                                createdAt = now ext, updatedAt = now ext \<rparr>
                         else None))
           | _ \<Rightarrow> None))"

text \<open>
  \<open>POST /api/bookings\<close>, after the authentication guard: \<open>userId\<close> is \<open>req.user?.id\<close>.
  The result is the response and the store afterwards. \<open>ObjectId(userId)\<close> throws on an
  identifier the mapper cannot cast, and \<open>save\<close> rejects a document the schema refuses; the
  handler's \<open>catch\<close> answers both with 500.
\<close>

definition create ::
  "externals \<Rightarrow> booking_doc list \<Rightarrow> string option \<Rightarrow> create_body
     \<Rightarrow> (error + booking_doc) \<times> booking_doc list" where
  "create ext store userId body =
     (case userId of
        None \<Rightarrow> (Inl (Unauthorized ''Unauthorized''), store)
      | Some u \<Rightarrow>
          if u = [] then (Inl (Unauthorized ''Unauthorized''), store)
          else if \<not> truthy (cb_type body) \<or> \<not> truthy (cb_duration body)
                  \<or> \<not> truthy (cb_platform body) \<or> \<not> truthy (cb_scheduledAt body)
          then (Inl (ValidationError ''Missing required fields.''), store)
          else
            (case newDate ext (cb_scheduledAt body) of
               None \<Rightarrow> (Inl (ValidationError ''Invalid scheduledAt date.''), store)
             | Some scheduledDate \<Rightarrow>
                 if \<not> objectIdValid ext u
                 then (Inl (InternalError ''Server error creating booking''), store)
                 else
                   (case newBooking ext (castObjectId ext u) body scheduledDate of
                      None \<Rightarrow> (Inl (InternalError ''Server error creating booking''), store)
                    | Some booking \<Rightarrow> (Inr booking, store @ [booking]))))"

text \<open>
  The store after \<open>booking.save()\<close> of a fetched document: the document is written back
  under its identifier.
\<close>

fun saveBooking :: "externals \<Rightarrow> booking_doc list \<Rightarrow> booking_doc \<Rightarrow> booking_doc list" where
  "saveBooking ext [] b = []"
| "saveBooking ext (x # xs) b =
     (if bid x = bid b then b\<lparr>updatedAt := now ext\<rparr> # xs else x # saveBooking ext xs b)"

text \<open>
  \<open>booking.save()\<close> after the handler has assigned \<open>status\<close>, \<open>adminNote\<close> and
  \<open>rescheduledTo\<close>: the note goes through the cast of \<open>String\<close>, and a note that cannot be
  cast makes \<open>save\<close> reject, which the handler's \<open>catch\<close> answers with 500.
\<close>

definition save ::
  "externals \<Rightarrow> booking_doc list \<Rightarrow> booking_doc \<Rightarrow> (error + booking_doc) \<times> booking_doc list" where
  "save ext store b =
     (case castString ext (adminNote b) of
        None \<Rightarrow> (Inl (InternalError ''Server error''), store)
      | Some n \<Rightarrow>
          (Inr (b\<lparr>adminNote := n, updatedAt := now ext\<rparr>),
           saveBooking ext store (b\<lparr>adminNote := n\<rparr>)))"

text \<open>
  \<open>PATCH /api/admin/bookings/:id\<close>, after the admin guard. The lookup is by the ObjectId
  the identifier is cast to. The answer is the saved document; that the handler then fills
  in the owner's public fields is left out.
\<close>

definition adminTransition ::
  "externals \<Rightarrow> booking_doc list \<Rightarrow> string \<Rightarrow> patch_body
     \<Rightarrow> (error + booking_doc) \<times> booking_doc list" where
  "adminTransition ext store i body =
     (if \<not> objectIdValid ext i then (Inl (ValidationError ''Invalid booking id''), store)
      else
        (let action = pb_action body;
             anote = dflt (pb_adminNote body) (JStr []);
             resched = dflt (pb_rescheduledTo body) JNull
         in case findBookingById store (castObjectId ext i) of
              None \<Rightarrow> (Inl (NotFound ''Booking not found''), store)
            | Some booking \<Rightarrow>
                if action = JStr ''approve'' then
                  save ext store
                    (booking\<lparr>status := Approved, adminNote := anote, rescheduledTo := None\<rparr>)
                else if action = JStr ''cancel'' then
                  save ext store
                    (booking\<lparr>status := Cancelled, adminNote := anote, rescheduledTo := None\<rparr>)
                else if action = JStr ''reschedule'' then
                  (case (if truthy resched then newDate ext resched else None) of
                     None \<Rightarrow> (Inl (ValidationError ''Invalid rescheduledTo date''), store)
                   | Some dt \<Rightarrow>
                       save ext store
                         (booking\<lparr>status := Rescheduled, rescheduledTo := Some dt,
                                  adminNote := anote\<rparr>))
                else (Inl (ValidationError ''Invalid action''), store)))"

text \<open>The schema's comment on \<open>rescheduledTo\<close>: set only while the booking is rescheduled.\<close>

definition booking_inv :: "booking_doc \<Rightarrow> bool" where
  "booking_inv b = (rescheduledTo b \<noteq> None \<longrightarrow> status b = Rescheduled)"

text \<open>A duration in minutes is positive when it is a number above zero.\<close>

definition js_positive :: "jsval \<Rightarrow> bool" where
  "js_positive v = (case v of JNum (Fin r) \<Rightarrow> 0 < r | JNum PosInf \<Rightarrow> True | _ \<Rightarrow> False)"

section \<open>Users\<close>

text \<open>
  A document of \<open>userSchema\<close>; \<open>uid\<close> is its \<open>_id\<close>, as \<open>toString()\<close> prints it. The account
  handlers read their fields as strings, and the documents keep the values the handlers
  pass. A lookup by identifier is by the ObjectId the identifier is cast to.
\<close>

record user_doc =
  uid :: string
  firstName :: string
  lastName :: string
  username :: string
  email :: string
  phone :: string
  country :: string
  passwordHash :: string
  dob :: string
  gender :: string
  role :: role
  isBanned :: bool
  banReason :: string
  bannedUntil :: "int option"
  userCreatedAt :: int
  userUpdatedAt :: int

text \<open>A plain object: its own properties in order.\<close>

type_synonym jsobj = "(string \<times> jsval) list"

definition js_delete :: "string \<Rightarrow> jsobj \<Rightarrow> jsobj" where
  "js_delete k obj = filter (\<lambda>kv. fst kv \<noteq> k) obj"

definition role_name :: "role \<Rightarrow> string" where
  "role_name r = (case r of Member \<Rightarrow> ''member'' | Admin \<Rightarrow> ''admin'')"

definition toObject :: "user_doc \<Rightarrow> jsobj" where
  "toObject u =
     [(''_id'', JStr (uid u)),
      (''firstName'', JStr (firstName u)),
      (''lastName'', JStr (lastName u)),
      (''username'', JStr (username u)),
      (''email'', JStr (email u)),
      (''phone'', JStr (phone u)),
      (''country'', JStr (country u)),
      (''passwordHash'', JStr (passwordHash u)),
      (''dob'', JStr (dob u)),
      (''gender'', JStr (gender u)),
      (''role'', JStr (role_name (role u))),
      (''isBanned'', JBool (isBanned u)),
      (''banReason'', JStr (banReason u)),
      (''bannedUntil'', (case bannedUntil u of None \<Rightarrow> JNull | Some t \<Rightarrow> JDate t)),
      (''createdAt'', JDate (userCreatedAt u)),
      (''updatedAt'', JDate (userUpdatedAt u)),
      (''__v'', JNum (Fin 0))]"

definition sanitizeUser :: "user_doc option \<Rightarrow> jsobj option" where
  "sanitizeUser userDoc =
     (case userDoc of
        None \<Rightarrow> None
      | Some d \<Rightarrow> Some (js_delete ''passwordHash'' (toObject d)))"

text \<open>
  An object is a document's public view: it has no \<open>passwordHash\<close> property, and its
  properties are the other properties of the document.
\<close>

definition without_hash :: "jsobj \<Rightarrow> user_doc \<Rightarrow> bool" where
  "without_hash obj d =
     (''passwordHash'' \<notin> fst ` set obj
      \<and> (\<forall>kv\<in>set (toObject d). fst kv \<noteq> ''passwordHash'' \<longrightarrow> kv \<in> set obj)
      \<and> set obj \<subseteq> set (toObject d))"

definition findUserById :: "user_doc list \<Rightarrow> string \<Rightarrow> user_doc option" where
  "findUserById users i = find (\<lambda>u. uid u = i) users"

text \<open>\<open>findByIdAndUpdate\<close>: the first document with the identifier is changed.\<close>

fun updateById :: "string \<Rightarrow> (user_doc \<Rightarrow> user_doc) \<Rightarrow> user_doc list \<Rightarrow> user_doc list" where
  "updateById i f [] = []"
| "updateById i f (u # us) = (if uid u = i then f u # us else u # updateById i f us)"

text \<open>\<open>findByIdAndDelete\<close>: the first document with the identifier is removed.\<close>

fun deleteById :: "string \<Rightarrow> user_doc list \<Rightarrow> user_doc list" where
  "deleteById i [] = []"
| "deleteById i (u # us) = (if uid u = i then us else u # deleteById i us)"

subsection \<open>Access control guards\<close>

text \<open>
  The bearer token of \<open>header.match(/^Bearer (.+)$/)\<close>: what follows the prefix, when it is
  not empty and holds no line terminator.
\<close>

definition bearer :: "string option \<Rightarrow> string option" where
  "bearer h =
     (case h of
        None \<Rightarrow> None
      | Some s \<Rightarrow>
          if take 7 s = ''Bearer '' \<and> drop 7 s \<noteq> []
             \<and> list_all (\<lambda>c. (of_char c :: nat) \<noteq> 10 \<and> (of_char c :: nat) \<noteq> 13) (drop 7 s)
          then Some (drop 7 s) else None)"

text \<open>The authenticated guard: the payload it attaches as \<open>req.user\<close>.\<close>

definition auth :: "externals \<Rightarrow> string option \<Rightarrow> error + payload" where
  "auth ext header =
     (case bearer header of
        None \<Rightarrow> Inl (Unauthorized ''Unauthorized'')
      | Some token \<Rightarrow>
          (case jwtVerify ext token of
             None \<Rightarrow> Inl (Unauthorized ''Invalid or expired token'')
           | Some pl \<Rightarrow> Inr pl))"

text \<open>
  The admin guard: the payload and the fresh document it attaches. A lookup by an
  identifier the mapper cannot cast throws, and the guard's \<open>catch\<close> answers 401.
\<close>

definition adminAuth ::
  "externals \<Rightarrow> user_doc list \<Rightarrow> string option \<Rightarrow> error + (payload \<times> user_doc)" where
  "adminAuth ext users header =
     (case bearer header of
        None \<Rightarrow> Inl (Unauthorized ''Unauthorized'')
      | Some token \<Rightarrow>
          (case jwtVerify ext token of
             None \<Rightarrow> Inl (Unauthorized ''Invalid or expired token'')
           | Some pl \<Rightarrow>
               (case p_id pl of
                  None \<Rightarrow> Inl (Unauthorized ''Unauthorized'')
                | Some i \<Rightarrow>
                    if i = [] then Inl (Unauthorized ''Unauthorized'')
                    else if \<not> objectIdValid ext i
                    then Inl (Unauthorized ''Invalid or expired token'')
                    else
                      (case findUserById users (castObjectId ext i) of
                         None \<Rightarrow> Inl (Unauthorized ''Unauthorized'')
                       | Some user \<Rightarrow>
                           if role user \<noteq> Admin
                           then Inl (Forbidden ''Forbidden: admin only'' None)
                           else Inr (pl, user)))))"

subsection \<open>Account lifecycle\<close>

record register_body =
  rb_firstName :: string
  rb_lastName :: string
  rb_username :: string
  rb_email :: string
  rb_phone :: string
  rb_country :: string
  rb_password :: string
  rb_dob :: string
  rb_gender :: string

text \<open>
  \<open>POST /api/users/register\<close>. The fields are the strings of the body, an absent one being
  the empty string its destructuring default gives.
\<close>

definition register ::
  "externals \<Rightarrow> user_doc list \<Rightarrow> register_body \<Rightarrow> (error + jsobj option) \<times> user_doc list" where
  "register ext users body =
     (if rb_firstName body = [] \<or> rb_lastName body = [] \<or> rb_username body = []
         \<or> rb_email body = [] \<or> rb_phone body = [] \<or> rb_country body = []
         \<or> rb_password body = [] \<or> rb_dob body = [] \<or> rb_gender body = []
      then (Inl (ValidationError ''Missing required fields.''), users)
      else if length (rb_password body) < 8
      then (Inl (ValidationError ''Password must be at least 8 characters.''), users)
      else if find (\<lambda>u. email u = toLowerCase (rb_email body)) users \<noteq> None
      then (Inl (Conflict ''Email already registered.''), users)
      else if find (\<lambda>u. username u = rb_username body) users \<noteq> None
      then (Inl (Conflict ''Username already taken.''), users)
      else
        (let newUser = \<lparr> uid = freshId ext,
               firstName = rb_firstName body, lastName = rb_lastName body,
               username = rb_username body, email = toLowerCase (rb_email body),
               phone = rb_phone body, country = rb_country body,
               passwordHash = bcryptHash ext (rb_password body),
               dob = rb_dob body, gender = rb_gender body,
               role = Member, isBanned = False, banReason = [], bannedUntil = None,
               userCreatedAt = now ext, userUpdatedAt = now ext \<rparr>
         in (Inr (sanitizeUser (Some newUser)), users @ [newUser])))"

record login_body =
  lb_email :: jsval
  lb_password :: jsval

text \<open>
  \<open>POST /api/users/login\<close>, the first handler registered for the route. A truthy email or
  password that is not a string makes a string method throw, which the handler's \<open>catch\<close>
  answers with 500.
\<close>

definition login ::
  "externals \<Rightarrow> user_doc list \<Rightarrow> login_body \<Rightarrow> error + (string \<times> jsobj option)" where
  "login ext users body =
     (let em = dflt (lb_email body) (JStr []); pw = dflt (lb_password body) (JStr [])
      in if \<not> truthy em \<or> \<not> truthy pw
         then Inl (ValidationError ''Email and password required.'')
         else
           (case em of
              JStr e \<Rightarrow>
                (case find (\<lambda>u. email u = js_trim (toLowerCase e)) users of
                   None \<Rightarrow> Inl (InvalidCredentials ''Invalid credentials.'')
                 | Some user \<Rightarrow>
                     if isBanned user
                     then Inl (Forbidden ''Account is banned.''
                            (Some (if banReason user = [] then ''No reason provided''
                                   else banReason user,
                                   bannedUntil user)))
                     else
                       (case pw of
                          JStr p \<Rightarrow>
                            if \<not> bcryptCompare ext p (passwordHash user)
                            then Inl (InvalidCredentials ''Invalid credentials.'')
                            else Inr (jwtSign ext \<lparr> p_id = Some (uid user),
                                         p_email = email user, p_username = username user,
                                         p_role = Some (role user) \<rparr>,
                                      sanitizeUser (Some user))
                        | _ \<Rightarrow> Inl (InternalError ''Server error during login.'')))
            | _ \<Rightarrow> Inl (InternalError ''Server error during login.'')))"

text \<open>\<open>GET /api/users/me\<close>, after the authentication guard.\<close>

definition getSelf :: "externals \<Rightarrow> user_doc list \<Rightarrow> payload \<Rightarrow> error + jsobj option" where
  "getSelf ext users pl =
     (case p_id pl of
        None \<Rightarrow> Inl (Unauthorized ''Unauthorized'')
      | Some userId \<Rightarrow>
          if userId = [] then Inl (Unauthorized ''Unauthorized'')
          else if \<not> objectIdValid ext userId then Inl (InternalError ''Server error'')
          else
            (case findUserById users (castObjectId ext userId) of
               None \<Rightarrow> Inl (NotFound ''User not found'')
             | Some user \<Rightarrow> Inr (sanitizeUser (Some user))))"

text \<open>
  The patch of \<open>PUT /api/users/me\<close>: the eight allowed fields of the body, \<open>None\<close> where the
  body has none. Nothing else of the body reaches the store. With an identifier the mapper
  cannot cast, the first store call throws and the answer is 500.
\<close>

record updates =
  up_firstName :: "string option"
  up_lastName :: "string option"
  up_username :: "string option"
  up_email :: "string option"
  up_phone :: "string option"
  up_country :: "string option"
  up_dob :: "string option"
  up_gender :: "string option"

definition applyUpdates :: "externals \<Rightarrow> updates \<Rightarrow> user_doc \<Rightarrow> user_doc" where
  "applyUpdates ext up u =
     u\<lparr> firstName := (case up_firstName up of None \<Rightarrow> firstName u | Some v \<Rightarrow> v),
        lastName := (case up_lastName up of None \<Rightarrow> lastName u | Some v \<Rightarrow> v),
        username := (case up_username up of None \<Rightarrow> username u | Some v \<Rightarrow> v),
        email := (case up_email up of None \<Rightarrow> email u | Some v \<Rightarrow> v),
        phone := (case up_phone up of None \<Rightarrow> phone u | Some v \<Rightarrow> v),
        country := (case up_country up of None \<Rightarrow> country u | Some v \<Rightarrow> v),
        dob := (case up_dob up of None \<Rightarrow> dob u | Some v \<Rightarrow> v),
        gender := (case up_gender up of None \<Rightarrow> gender u | Some v \<Rightarrow> v),
        userUpdatedAt := now ext \<rparr>"

definition updateSelf ::
  "externals \<Rightarrow> user_doc list \<Rightarrow> payload \<Rightarrow> updates \<Rightarrow> (error + jsobj option) \<times> user_doc list" where
  "updateSelf ext users pl body =
     (case p_id pl of
        None \<Rightarrow> (Inl (Unauthorized ''Unauthorized''), users)
      | Some userId \<Rightarrow>
          if userId = [] then (Inl (Unauthorized ''Unauthorized''), users)
          else if \<not> objectIdValid ext userId then (Inl (InternalError ''Server error''), users)
          else if (case up_email body of
                     None \<Rightarrow> False
                   | Some e \<Rightarrow> e \<noteq> []
                       \<and> find (\<lambda>u. email u = toLowerCase e \<and> uid u \<noteq> castObjectId ext userId) users
                            \<noteq> None)
          then (Inl (Conflict ''Email already in use.''), users)
          else if (case up_username body of
                     None \<Rightarrow> False
                   | Some n \<Rightarrow> n \<noteq> []
                       \<and> find (\<lambda>u. username u = n \<and> uid u \<noteq> castObjectId ext userId) users
                            \<noteq> None)
          then (Inl (Conflict ''Username already in use.''), users)
          else
            (let up = body\<lparr>up_email := map_option toLowerCase (up_email body)\<rparr>
             in case findUserById users (castObjectId ext userId) of
                  None \<Rightarrow> (Inl (NotFound ''User not found''), users)
                | Some user \<Rightarrow>
                    (Inr (sanitizeUser (Some (applyUpdates ext up user))),
                     updateById (castObjectId ext userId) (applyUpdates ext up) users)))"

subsection \<open>Admin user moderation\<close>

text \<open>The page of lean documents of \<open>GET /api/admin/users\<close>, as it is answered.\<close>

definition sanitized :: "jsobj list \<Rightarrow> jsobj list" where
  "sanitized users = map (js_delete ''passwordHash'') users"

text \<open>
  \<open>DELETE /api/admin/users/:id\<close>; \<open>pl\<close> is \<open>req.user\<close>, the payload the guard attached.
  The self check \<open>req.user?.id === id\<close> compares the two strings; \<open>findByIdAndDelete\<close> then
  looks up the ObjectId the identifier is cast to.
\<close>

definition deleteUser ::
  "externals \<Rightarrow> user_doc list \<Rightarrow> payload \<Rightarrow> string \<Rightarrow> (error + string) \<times> user_doc list" where
  "deleteUser ext users pl i =
     (if \<not> objectIdValid ext i then (Inl (ValidationError ''Invalid user id''), users)
      else if p_id pl = Some i
      then (Inl (ValidationError ''Cannot delete your own admin account.''), users)
      else
        (case findUserById users (castObjectId ext i) of
           None \<Rightarrow> (Inl (NotFound ''User not found''), users)
         | Some deleted \<Rightarrow> (Inr ''User deleted.'', deleteById (castObjectId ext i) users)))"

record ban_body =
  bb_reason :: "string option"
  bb_until :: jsval

text \<open>
  \<open>POST /api/admin/users/:id/ban\<close>. The reason is a string when the body has one. A truthy
  \<open>until\<close> that is no date reaches the store as an invalid date, which the mapper refuses.
\<close>

definition banUser ::
  "externals \<Rightarrow> user_doc list \<Rightarrow> payload \<Rightarrow> string \<Rightarrow> ban_body
     \<Rightarrow> (error + user_doc) \<times> user_doc list" where
  "banUser ext users pl i body =
     (if \<not> objectIdValid ext i then (Inl (ValidationError ''Invalid user id''), users)
      else if p_id pl = Some i then (Inl (ValidationError ''Cannot ban yourself.''), users)
      else
        (let reason = (case bb_reason body of None \<Rightarrow> [] | Some r \<Rightarrow> r);
             until = dflt (bb_until body) JNull
         in if truthy until \<and> newDate ext until = None
            then (Inl (InternalError ''Server error''), users)
            else
              (let f = (\<lambda>u. u\<lparr> isBanned := True,
                               banReason := (if reason = [] then ''No reason provided'' else reason),
                               bannedUntil := (if truthy until then newDate ext until else None),
                               userUpdatedAt := now ext \<rparr>)
               in case findUserById users (castObjectId ext i) of
                    None \<Rightarrow> (Inl (NotFound ''User not found''), users)
                  | Some user \<Rightarrow> (Inr (f user), updateById (castObjectId ext i) f users))))"

text \<open>\<open>POST /api/admin/users/:id/unban\<close>.\<close>

definition unbanUser ::
  "externals \<Rightarrow> user_doc list \<Rightarrow> string \<Rightarrow> (error + user_doc) \<times> user_doc list" where
  "unbanUser ext users i =
     (if \<not> objectIdValid ext i then (Inl (ValidationError ''Invalid user id''), users)
      else
        (let f = (\<lambda>u. u\<lparr> isBanned := False, banReason := [], bannedUntil := None,
                         userUpdatedAt := now ext \<rparr>)
         in case findUserById users (castObjectId ext i) of
              None \<Rightarrow> (Inl (NotFound ''User not found''), users)
            | Some user \<Rightarrow> (Inr (f user), updateById (castObjectId ext i) f users)))"

text \<open>\<open>PATCH /api/admin/users/:id/role\<close>; \<open>r\<close> is the \<open>role\<close> of the body.\<close>

definition setRole ::
  "externals \<Rightarrow> user_doc list \<Rightarrow> payload \<Rightarrow> string \<Rightarrow> jsval
     \<Rightarrow> (error + user_doc) \<times> user_doc list" where
  "setRole ext users pl i r =
     (if r \<noteq> JStr ''member'' \<and> r \<noteq> JStr ''admin''
      then (Inl (ValidationError ''Invalid role''), users)
      else if \<not> objectIdValid ext i then (Inl (ValidationError ''Invalid user id''), users)
      else if p_id pl = Some i \<and> r \<noteq> JStr ''admin''
      then (Inl (ValidationError ''Cannot remove admin role from yourself.''), users)
      else
        (let f = (\<lambda>u. u\<lparr> role := (if r = JStr ''admin'' then Admin else Member),
                         userUpdatedAt := now ext \<rparr>)
         in case findUserById users (castObjectId ext i) of
              None \<Rightarrow> (Inl (NotFound ''User not found''), users)
            | Some user \<Rightarrow> (Inr (f user), updateById (castObjectId ext i) f users)))"

section \<open>Admin listings\<close>

text \<open>The query string of a listing request: each parameter a string, or absent.\<close>

record list_query =
  q_q :: "string option"
  q_page :: "string option"
  q_limit :: "string option"
  q_status :: "string option"

text \<open>\<open>x || d\<close> on a query parameter: the default replaces an absent or empty one.\<close>

definition or_default :: "string option \<Rightarrow> string \<Rightarrow> string" where
  "or_default x d = (case x of None \<Rightarrow> d | Some s \<Rightarrow> if s = [] then d else s)"

subsection \<open>Pagination\<close>

text \<open>
  \<open>parseInt(s, 10)\<close>: leading white space is skipped, a sign is read, and the longest run of
  decimal digits that follows is the value; with no digit the result is NaN, here \<open>None\<close>.
  The value is the exact integer; the engine rounds it to a double, which changes no
  comparison with 1, 5 or 100.
\<close>

definition parseInt10 :: "string \<Rightarrow> int option" where
  "parseInt10 s =
     (let t = dropWhile js_ws s;
          neg = (case t of [] \<Rightarrow> False | c # cs \<Rightarrow> c = CHR ''-'');
          r = (case t of [] \<Rightarrow> [] | c # cs \<Rightarrow> if c = CHR ''-'' \<or> c = CHR ''+'' then cs else t);
          ds = takeWhile (\<lambda>c. digit_val c \<noteq> None) r
      in if ds = [] then None
         else (let v = foldl (\<lambda>a c. 10 * a + (case digit_val c of None \<Rightarrow> 0 | Some d \<Rightarrow> d)) 0 ds
               in Some (if neg then - v else v)))"

text \<open>\<open>Math.max\<close> and \<open>Math.min\<close> answer NaN as soon as one argument is NaN.\<close>

definition mathMax :: "int option \<Rightarrow> int option \<Rightarrow> int option" where
  "mathMax a b = (case a of None \<Rightarrow> None | Some x \<Rightarrow> (case b of None \<Rightarrow> None | Some y \<Rightarrow> Some (max x y)))"

definition mathMin :: "int option \<Rightarrow> int option \<Rightarrow> int option" where
  "mathMin a b = (case a of None \<Rightarrow> None | Some x \<Rightarrow> (case b of None \<Rightarrow> None | Some y \<Rightarrow> Some (min x y)))"

text \<open>The \<open>page\<close>, \<open>limit\<close> and \<open>skip\<close> of a listing; \<open>d\<close> is the default limit of the route.\<close>

definition paging :: "string \<Rightarrow> list_query \<Rightarrow> int option \<times> int option \<times> int option" where
  "paging d query =
     (let page = mathMax (Some 1) (parseInt10 (or_default (q_page query) ''1''));
          limit = mathMin (Some 100) (mathMax (Some 5) (parseInt10 (or_default (q_limit query) d)));
          skip = (case page of None \<Rightarrow> None
                  | Some p \<Rightarrow> (case limit of None \<Rightarrow> None | Some l \<Rightarrow> Some ((p - 1) * l)))
      in (page, limit, skip))"

definition bookingsPaging :: "list_query \<Rightarrow> int option \<times> int option \<times> int option" where
  "bookingsPaging query = paging ''50'' query"

definition usersPaging :: "list_query \<Rightarrow> int option \<times> int option \<times> int option" where
  "usersPaging query = paging ''20'' query"

subsection \<open>Search\<close>

text \<open>
  \<open>q.replace(/[.*+?^${}()|[\]\\]/g, "\\$&")\<close>: each character of the class gets a
  backslash in front.
\<close>

definition escape_class :: "char \<Rightarrow> bool" where
  "escape_class c = (c \<in> set (''.*+?^${}()|[]'' @ [CHR 0x5C]))"

definition escapeRegExp :: "string \<Rightarrow> string" where
  "escapeRegExp q = concat (map (\<lambda>c. if escape_class c then [CHR 0x5C, c] else [c]) q)"

text \<open>
  The pattern language is the regular expression engine's, not the repository's. What is
  modelled of it: the syntax characters \<open>^ $ \ . * + ? ( ) [ ] { } |\<close>; a syntax character
  after a backslash stands for itself, as any other character does when no backslash
  precedes it; and a pattern made of such characters only matches, under the flag \<open>i\<close>, a
  text that holds the characters in sequence, letters compared without case. Any other
  pattern is outside the model: its test is \<open>None\<close>.
\<close>

definition rx_syntax :: "char \<Rightarrow> bool" where
  "rx_syntax c = (c \<in> set (''^$'' @ [CHR 0x5C] @ ''.*+?()[]{}|''))"

datatype rx_token = Lit char | Meta char | Esc char | Dangling

fun rx_tokens :: "string \<Rightarrow> rx_token list" where
  "rx_tokens [] = []"
| "rx_tokens [c] =
     (if c = CHR 0x5C then [Dangling] else if rx_syntax c then [Meta c] else [Lit c])"
| "rx_tokens (c # d # cs) =
     (if c = CHR 0x5C then (if rx_syntax d then Lit d else Esc d) # rx_tokens cs
      else (if rx_syntax c then Meta c else Lit c) # rx_tokens (d # cs))"

fun literal_of :: "rx_token list \<Rightarrow> string option" where
  "literal_of [] = Some []"
| "literal_of (Lit c # ts) = map_option ((#) c) (literal_of ts)"
| "literal_of (t # ts) = None"

fun match_here :: "string \<Rightarrow> string \<Rightarrow> bool" where
  "match_here [] t = True"
| "match_here (c # cs) [] = False"
| "match_here (c # cs) (d # ds) = (lower_char c = lower_char d \<and> match_here cs ds)"

fun search :: "string \<Rightarrow> string \<Rightarrow> bool" where
  "search lit [] = match_here lit []"
| "search lit (d # ds) = (match_here lit (d # ds) \<or> search lit ds)"

text \<open>\<open>new RegExp(pattern, "i")\<close> tested on a text.\<close>

definition regex_test_i :: "string \<Rightarrow> string \<Rightarrow> bool option" where
  "regex_test_i pattern text = map_option (\<lambda>lit. search lit text) (literal_of (rx_tokens pattern))"

text \<open>A clause \<open>{ field: re }\<close> of the filter: the field is a string that \<open>re\<close> matches.\<close>

definition field_matches :: "string \<Rightarrow> jsval \<Rightarrow> bool option" where
  "field_matches pattern f =
     (case f of
        JStr s \<Rightarrow> regex_test_i pattern s
      | _ \<Rightarrow> map_option (\<lambda>_. False) (regex_test_i pattern []))"

text \<open>The \<open>$or\<close> of the clauses.\<close>

fun or_regex :: "string \<Rightarrow> jsval list \<Rightarrow> bool option" where
  "or_regex pattern [] = Some False"
| "or_regex pattern (f # fs) =
     (case field_matches pattern f of
        None \<Rightarrow> None
      | Some m \<Rightarrow> map_option (\<lambda>r. m \<or> r) (or_regex pattern fs))"

text \<open>A text holds \<open>q\<close> as a substring, letters compared without case.\<close>

definition ci_substring :: "string \<Rightarrow> string \<Rightarrow> bool" where
  "ci_substring q s = sublist (toLowerCase q) (toLowerCase s)"

definition status_name :: "status \<Rightarrow> string" where
  "status_name st =
     (case st of Pending \<Rightarrow> ''pending'' | Approved \<Rightarrow> ''approved''
               | Cancelled \<Rightarrow> ''cancelled'' | Rescheduled \<Rightarrow> ''rescheduled'')"

text \<open>\<open>if (req.query.status) filter.status = req.query.status\<close>.\<close>

definition statusFilter :: "list_query \<Rightarrow> booking_doc \<Rightarrow> bool" where
  "statusFilter query b =
     (case q_status query of
        None \<Rightarrow> True
      | Some s \<Rightarrow> s = [] \<or> status_name (status b) = s)"

text \<open>Whether a booking passes the filter of \<open>GET /api/admin/bookings\<close>.\<close>

definition bookingFilter :: "list_query \<Rightarrow> booking_doc \<Rightarrow> bool option" where
  "bookingFilter query b =
     (let q = js_trim (or_default (q_q query) [])
      in if q = [] then Some (statusFilter query b)
         else map_option (\<lambda>m. statusFilter query b \<and> m)
                (or_regex (escapeRegExp q) [userNotes b, platformDetails b, platform b]))"

text \<open>Whether a user passes the filter of \<open>GET /api/admin/users\<close>.\<close>

definition userFilter :: "list_query \<Rightarrow> user_doc \<Rightarrow> bool option" where
  "userFilter query u =
     (let q = js_trim (or_default (q_q query) [])
      in if q = [] then Some True
         else or_regex (escapeRegExp q)
                [JStr (email u), JStr (username u), JStr (firstName u), JStr (lastName u),
                 JStr (phone u)])"

section \<open>Sample data\<close>

text \<open>Concrete collaborators and documents, for evaluating the handlers.\<close>

definition demo_ext :: externals where
  "demo_ext = \<lparr> objectIdValid = (\<lambda>s. length s = 24 \<and> list_all (\<lambda>c. c \<in> set ''0123456789abcdefABCDEF'') s),
       castObjectId = toLowerCase,
       printed = (\<lambda>v. ''[printed]''),
       newDate = (\<lambda>v. case v of
                     JStr s \<Rightarrow> (if s = ''2030-01-01T10:00:00.000Z'' then Some 1893492000000 else None)
                   | JNum (Fin r) \<Rightarrow> Some \<lfloor>r\<rfloor>
                   | _ \<Rightarrow> None),
       bcryptCompare = (\<lambda>p h. h = ''$'' @ p),
       bcryptHash = (\<lambda>p. ''$'' @ p),
       jwtSign = (\<lambda>pl. ''tok-'' @ p_username pl),
       jwtVerify = (\<lambda>t. if t = ''tok-ada''
                          then Some \<lparr> p_id = Some ''65f000000000000000000001'',
                                     p_email = ''ada@example.org'', p_username = ''ada'',
                                     p_role = Some Admin \<rparr>
                          else None),
       freshId = ''65f000000000000000000002'',
       now = 1700000000000 \<rparr>"

definition demo_body :: "jsval \<Rightarrow> create_body" where
  "demo_body d = \<lparr> cb_type = JStr ''session'', cb_duration = d, cb_platform = JStr ''zoom'',
       cb_platformDetails = JUndefined, cb_scheduledAt = JStr ''2030-01-01T10:00:00.000Z'',
       cb_notes = JUndefined \<rparr>"

definition demo_booking :: "jsval \<Rightarrow> booking_doc" where
  "demo_booking d = \<lparr> bid = ''65f000000000000000000002'', owner = ''65f000000000000000000001'',
       btype = JStr ''session'', duration = d, platform = JStr ''zoom'',
       platformDetails = JStr [], scheduledAt = 1893492000000, status = Pending,
       userNotes = JStr [], adminNote = JStr [], rescheduledTo = None,
       createdAt = 1700000000000, updatedAt = 1700000000000 \<rparr>"

definition demo_rescheduled :: booking_doc where
  "demo_rescheduled = (demo_booking (JNum (Fin 30)))
       \<lparr> status := Rescheduled, rescheduledTo := Some 1893492000000 \<rparr>"

definition demo_patch :: "string \<Rightarrow> jsval \<Rightarrow> patch_body" where
  "demo_patch a r = \<lparr> pb_action = JStr a, pb_adminNote = JStr ''ok'', pb_rescheduledTo = r \<rparr>"

definition demo_admin :: user_doc where
  "demo_admin = \<lparr> uid = ''65f000000000000000000001'', firstName = ''Ada'', lastName = ''Byron'',
       username = ''ada'', email = ''ada@example.org'', phone = ''+4410000000'',
       country = ''UK'', passwordHash = ''$correct horse'', dob = ''1815-12-10'',
       gender = ''f'', role = Admin, isBanned = False, banReason = [], bannedUntil = None,
       userCreatedAt = 1600000000000, userUpdatedAt = 1600000000000 \<rparr>"

definition demo_banned_admin :: user_doc where
  "demo_banned_admin = demo_admin\<lparr> isBanned := True, banReason := ''spam'',
       bannedUntil := Some 1900000000000 \<rparr>"

definition demo_member :: user_doc where
  "demo_member = demo_admin\<lparr> role := Member \<rparr>"

definition demo_payload :: payload where
  "demo_payload = \<lparr> p_id = Some ''65f000000000000000000001'', p_email = ''ada@example.org'',
       p_username = ''ada'', p_role = Some Admin \<rparr>"

definition demo_login :: "string \<Rightarrow> string \<Rightarrow> login_body" where
  "demo_login e p = \<lparr> lb_email = JStr e, lb_password = JStr p \<rparr>"

definition demo_noted :: "string \<Rightarrow> booking_doc" where
  "demo_noted n = (demo_booking (JNum (Fin 30)))\<lparr> userNotes := JStr n \<rparr>"

definition demo_query :: "string option \<Rightarrow> string option \<Rightarrow> string option \<Rightarrow> list_query" where
  "demo_query q p l = \<lparr> q_q = q, q_page = p, q_limit = l, q_status = None \<rparr>"

definition demo_object_note :: patch_body where
  "demo_object_note = \<lparr> pb_action = JStr ''approve'', pb_adminNote = JObj,
       pb_rescheduledTo = JUndefined \<rparr>"

section \<open>Evaluating the casts\<close>

lemma stringToNumber_examples:
  "stringToNumber ''0'' = Fin 0" "stringToNumber ''30'' = Fin 30"
  "stringToNumber '' 1.5e1 '' = Fin 15" "stringToNumber ''0x10'' = Fin 16"
  "stringToNumber ''abc'' = NaN" "stringToNumber ''-5'' = Fin (- 5)"
  "stringToNumber ''-Infinity'' = NegInf" "stringToNumber ''  '' = Fin 0"
  "stringToNumber ''.5'' = Fin (1 / 2)" "stringToNumber ''5.'' = Fin 5"
  "stringToNumber ''1e-2'' = Fin (1 / 100)" "stringToNumber ''12px'' = NaN"
  "stringToNumber ''.'' = NaN" "stringToNumber ''0x'' = NaN"
  by (simp_all add: stringToNumber_def js_trim_def js_ws_def radix_literal_def decimal_literal_def
        exponent_part_def nonempty_digits_def is_digit_def digit_val_def hex_val_def Let_def)

lemma castNumber_examples:
  "castNumber (JStr ''0'') = Some (Fin 0)" "castNumber (JNum (Fin (- 5))) = Some (Fin (- 5))"
  "castNumber (JNum (Fin 30)) = Some (Fin 30)" "castNumber (JBool True) = Some (Fin 1)"
  "castNumber JObj = None"
  by (simp_all add: castNumber_def stringToNumber_examples)

lemma demo_cast:
  "castObjectId demo_ext ''65f000000000000000000001'' = ''65f000000000000000000001''"
  "castObjectId demo_ext ''65f000000000000000000002'' = ''65f000000000000000000002''"
  "castObjectId demo_ext ''65F000000000000000000001'' = ''65f000000000000000000001''"
  by (simp_all add: demo_ext_def toLowerCase_def lower_char_def)

section \<open>Properties of the booking lifecycle\<close>

lemma truthy_dflt_null: "truthy (dflt v JNull) = truthy v"
  by (cases v) (simp_all add: dflt_def)

lemma castNumber_not_NaN: "castNumber v = Some n \<Longrightarrow> n \<noteq> NaN"
  by (cases v) (auto simp: castNumber_def split: if_splits)

lemma castNumber_JNum: "castNumber (JNum m) = Some n \<Longrightarrow> n = m"
  by (simp add: castNumber_def split: if_splits)

lemma newBooking_Some:
  assumes "newBooking ext u cb t = Some b"
  shows "status b = Pending \<and> rescheduledTo b = None
         \<and> (\<exists>n. castNumber (cb_duration cb) = Some n \<and> duration b = JNum n)"
  using assms
  by (auto simp: newBooking_def split: option.splits jsval.splits if_splits)

lemma newBooking_ok:
  assumes "cb_type cb \<in> JStr ` set bookingTypes" and "castNumber (cb_duration cb) = Some n"
      and "cb_platform cb = JStr p" and "p \<noteq> []"
      and "castString ext (dflt (cb_platformDetails cb) (JStr [])) = Some pd"
      and "castString ext (dflt (cb_notes cb) (JStr [])) = Some nt"
  shows "newBooking ext u cb t =
           Some \<lparr> bid = freshId ext, owner = u, btype = cb_type cb, duration = JNum n,
                  platform = JStr p, platformDetails = pd, scheduledAt = t, status = Pending,
                  userNotes = nt, adminNote = JStr [], rescheduledTo = None,
                  createdAt = now ext, updatedAt = now ext \<rparr>"
  using assms by (simp add: newBooking_def castString_def)

lemma create_Inr:
  assumes "create ext store uo cb = (Inr b, store')"
  shows "store' = store @ [b] \<and> status b = Pending \<and> rescheduledTo b = None
         \<and> (\<exists>n. castNumber (cb_duration cb) = Some n \<and> duration b = JNum n)
         \<and> truthy (cb_duration cb)"
proof -
  from assms obtain u t where nb: "newBooking ext u cb t = Some b"
      and s: "store' = store @ [b]" and d: "truthy (cb_duration cb)"
    by (auto simp: create_def split: option.splits if_splits)
  from newBooking_Some [OF nb] s d show ?thesis by simp
qed

lemma create_ok:
  assumes "u \<noteq> []" and "objectIdValid ext u"
      and "truthy (cb_type cb)" and "truthy (cb_duration cb)"
      and "truthy (cb_platform cb)" and "truthy (cb_scheduledAt cb)"
      and "newDate ext (cb_scheduledAt cb) = Some t"
      and "newBooking ext (castObjectId ext u) cb t = Some nb"
  shows "create ext store (Some u) cb = (Inr nb, store @ [nb])"
  using assms by (simp add: create_def)

lemma create_Inl: "fst (create ext store uo cb) = Inl e \<Longrightarrow> snd (create ext store uo cb) = store"
  by (auto simp: create_def split: option.splits if_splits)

lemma find_bid: "findBookingById store i = Some bk \<Longrightarrow> bid bk = i"
  unfolding findBookingById_def by (induction store) (auto split: if_splits)

lemma find_saveBooking_id:
  assumes "findBookingById store (bid b) = Some bk"
  shows "findBookingById (saveBooking ext store b) (bid b) = Some (b\<lparr>updatedAt := now ext\<rparr>)"
  using assms unfolding findBookingById_def
  by (induction store) (auto split: if_splits)

lemma find_saveBooking:
  assumes "findBookingById store i = Some bk" "bid b = bid bk"
  shows "findBookingById (saveBooking ext store b) i = Some (b\<lparr>updatedAt := now ext\<rparr>)"
proof -
  from find_bid [OF assms(1)] assms(2) have i: "i = bid b" by simp
  show ?thesis using find_saveBooking_id [of store b bk ext] assms(1) unfolding i by simp
qed

lemma saveBooking_set:
  "set (saveBooking ext store b) \<subseteq> insert (b\<lparr>updatedAt := now ext\<rparr>) (set store)"
  by (induction store) auto

lemma saveBooking_inv:
  assumes "\<forall>x\<in>set store. booking_inv x" "booking_inv b"
  shows "\<forall>x\<in>set (saveBooking ext store b). booking_inv x"
proof
  fix x
  assume "x \<in> set (saveBooking ext store b)"
  with saveBooking_set have "x = b\<lparr>updatedAt := now ext\<rparr> \<or> x \<in> set store" by blast
  moreover have "booking_inv (b\<lparr>updatedAt := now ext\<rparr>)"
    using assms(2) by (simp add: booking_inv_def)
  ultimately show "booking_inv x" using assms(1) by blast
qed

lemma save_Inr:
  assumes "save ext store b = (Inr b', s)"
  shows "\<exists>n. castString ext (adminNote b) = Some n
           \<and> b' = b\<lparr>adminNote := n, updatedAt := now ext\<rparr>
           \<and> s = saveBooking ext store (b\<lparr>adminNote := n\<rparr>)"
  using assms by (auto simp: save_def split: option.splits)

lemma save_ok:
  assumes "castString ext (adminNote b) = Some n"
  shows "save ext store b = (Inr (b\<lparr>adminNote := n, updatedAt := now ext\<rparr>),
                             saveBooking ext store (b\<lparr>adminNote := n\<rparr>))"
  using assms by (simp add: save_def)

lemma save_Inl: "fst (save ext store b) = Inl e \<Longrightarrow> snd (save ext store b) = store"
  by (auto simp: save_def split: option.splits)

lemma demo_valid: "objectIdValid demo_ext ''65f000000000000000000001''"
  "objectIdValid demo_ext ''65f000000000000000000002''"
  "objectIdValid demo_ext ''65F000000000000000000001''"
  by (simp_all add: demo_ext_def)

lemma demo_newBooking:
  assumes "castNumber d = Some n"
  shows "newBooking demo_ext ''65f000000000000000000001'' (demo_body d) 1893492000000
           = Some (demo_booking (JNum n))"
proof -
  have "newBooking demo_ext ''65f000000000000000000001'' (demo_body d) 1893492000000
          = Some \<lparr> bid = freshId demo_ext, owner = ''65f000000000000000000001'',
                   btype = cb_type (demo_body d), duration = JNum n,
                   platform = JStr ''zoom'', platformDetails = JStr [],
                   scheduledAt = 1893492000000, status = Pending,
                   userNotes = JStr [], adminNote = JStr [], rescheduledTo = None,
                   createdAt = now demo_ext, updatedAt = now demo_ext \<rparr>"
    by (rule newBooking_ok)
       (simp_all add: assms demo_body_def bookingTypes_def dflt_def castString_def)
  then show ?thesis by (simp add: demo_booking_def demo_body_def demo_ext_def)
qed

lemma demo_create:
  assumes "castNumber d = Some n" and "truthy d"
  shows "create demo_ext [] (Some ''65f000000000000000000001'') (demo_body d)
           = (Inr (demo_booking (JNum n)), [demo_booking (JNum n)])"
proof -
  have u: "''65f000000000000000000001'' \<noteq> []" by simp
  have t: "truthy (cb_type (demo_body d))" "truthy (cb_duration (demo_body d))"
      "truthy (cb_platform (demo_body d))" "truthy (cb_scheduledAt (demo_body d))"
    using assms(2) by (simp_all add: demo_body_def)
  have dt: "newDate demo_ext (cb_scheduledAt (demo_body d)) = Some 1893492000000"
    by (simp add: demo_body_def demo_ext_def)
  from create_ok [OF u demo_valid(1) t dt, of "demo_booking (JNum n)" "[]"]
       demo_newBooking [OF assms(1)] demo_cast(1)
  show ?thesis by simp
qed

lemma newBooking_unknown_type:
  "cb_type cb \<notin> JStr ` set bookingTypes \<Longrightarrow> newBooking ext u cb t = None"
  by (auto simp: newBooking_def split: option.splits jsval.splits)

lemma create_refuses_unknown_type:
  "create demo_ext [] (Some ''65f000000000000000000001'')
      ((demo_body (JNum (Fin 30)))\<lparr>cb_type := JStr ''meeting''\<rparr>)
     = (Inl (InternalError ''Server error creating booking''), [])"
proof -
  define cb where "cb = (demo_body (JNum (Fin 30)))\<lparr>cb_type := JStr ''meeting''\<rparr>"
  have "cb_type cb \<notin> JStr ` set bookingTypes" by (auto simp: cb_def bookingTypes_def)
  from newBooking_unknown_type [OF this]
  have n: "newBooking demo_ext u cb t = None" for u t .
  have d: "newDate demo_ext (cb_scheduledAt cb) = Some 1893492000000"
    by (simp add: cb_def demo_body_def demo_ext_def)
  have t: "truthy (cb_type cb)" "truthy (cb_duration cb)" "truthy (cb_platform cb)"
      "truthy (cb_scheduledAt cb)"
    by (simp_all add: cb_def demo_body_def)
  have "create demo_ext [] (Some ''65f000000000000000000001'') cb
          = (Inl (InternalError ''Server error creating booking''), [])"
    using demo_valid(1) by (simp add: create_def n d t)
  then show ?thesis unfolding cb_def .
qed

text \<open>
  C9 (as stated, refuted): a created booking need not have a positive duration. A request
  with duration \<open>-5\<close> passes the presence check and the schema, and the booking is stored
  with that value.
\<close>

theorem create_duration_not_positive:
  "create demo_ext [] (Some ''65f000000000000000000001'') (demo_body (JNum (Fin (- 5))))
     = (Inr (demo_booking (JNum (Fin (- 5)))), [demo_booking (JNum (Fin (- 5)))])
   \<and> duration (demo_booking (JNum (Fin (- 5)))) = JNum (Fin (- 5))
   \<and> \<not> js_positive (duration (demo_booking (JNum (Fin (- 5)))))"
proof -
  have c: "castNumber (JNum (Fin (- 5))) = Some (Fin (- 5))" by (simp add: castNumber_def)
  have t: "truthy (JNum (Fin (- 5)))" by simp
  from demo_create [OF c t] show ?thesis
    by (simp add: demo_booking_def js_positive_def)
qed

text \<open>
  C9 (amended): every booking that \<open>create\<close> accepts is stored with a duration that is a
  number and not NaN: the schema's cast of the request's duration, which is truthy. When
  the request gives a number, that number is stored unchanged and is not zero. No sign or
  range check is made.
\<close>

theorem create_duration_cast:
  assumes "create ext store uo cb = (Inr b, store')"
  shows "\<exists>n. duration b = JNum n \<and> castNumber (cb_duration cb) = Some n \<and> n \<noteq> NaN
             \<and> truthy (cb_duration cb)
             \<and> (\<forall>m. cb_duration cb = JNum m \<longrightarrow> n = m \<and> m \<noteq> Fin 0)
             \<and> b \<in> set store'"
proof -
  from create_Inr [OF assms] obtain n
    where s: "store' = store @ [b]" and c: "castNumber (cb_duration cb) = Some n"
      and d: "duration b = JNum n" and t: "truthy (cb_duration cb)"
    by blast
  have "\<forall>m. cb_duration cb = JNum m \<longrightarrow> n = m \<and> m \<noteq> Fin 0"
    using c t castNumber_JNum by auto
  with s c d t castNumber_not_NaN [OF c] show ?thesis by auto
qed

text \<open>
  C9, witness: a request with duration 30 is accepted and stored with duration 30.
\<close>

theorem create_duration_cast_witness:
  "create demo_ext [] (Some ''65f000000000000000000001'') (demo_body (JNum (Fin 30)))
     = (Inr (demo_booking (JNum (Fin 30))), [demo_booking (JNum (Fin 30))])
   \<and> duration (demo_booking (JNum (Fin 30))) = JNum (Fin 30)
   \<and> castNumber (cb_duration (demo_body (JNum (Fin 30)))) = Some (Fin 30)"
proof -
  have c: "castNumber (JNum (Fin 30)) = Some (Fin 30)" by (simp add: castNumber_def)
  have t: "truthy (JNum (Fin 30))" by simp
  note r = demo_create [OF c t]
  from create_duration_cast [OF r] obtain n
    where d: "duration (demo_booking (JNum (Fin 30))) = JNum n"
      and k: "castNumber (cb_duration (demo_body (JNum (Fin 30)))) = Some n"
      and m: "\<forall>m. cb_duration (demo_body (JNum (Fin 30))) = JNum m \<longrightarrow> n = m \<and> m \<noteq> Fin 0"
    by blast
  have "cb_duration (demo_body (JNum (Fin 30))) = JNum (Fin 30)" by (simp add: demo_body_def)
  with m have "n = Fin 30" by blast
  with r d k show ?thesis by simp
qed

lemma adminTransition_found:
  assumes "objectIdValid ext i" "findBookingById store (castObjectId ext i) = Some bk"
  shows "adminTransition ext store i pb =
     (if pb_action pb = JStr ''approve'' then
        save ext store (bk\<lparr>status := Approved, adminNote := dflt (pb_adminNote pb) (JStr []),
                            rescheduledTo := None\<rparr>)
      else if pb_action pb = JStr ''cancel'' then
        save ext store (bk\<lparr>status := Cancelled, adminNote := dflt (pb_adminNote pb) (JStr []),
                            rescheduledTo := None\<rparr>)
      else if pb_action pb = JStr ''reschedule'' then
        (if truthy (pb_rescheduledTo pb) then
           (case newDate ext (pb_rescheduledTo pb) of
              None \<Rightarrow> (Inl (ValidationError ''Invalid rescheduledTo date''), store)
            | Some dt \<Rightarrow>
                save ext store (bk\<lparr>status := Rescheduled, rescheduledTo := Some dt,
                                    adminNote := dflt (pb_adminNote pb) (JStr [])\<rparr>))
         else (Inl (ValidationError ''Invalid rescheduledTo date''), store))
      else (Inl (ValidationError ''Invalid action''), store))"
proof -
  have d: "truthy (pb_rescheduledTo pb) \<Longrightarrow> dflt (pb_rescheduledTo pb) JNull = pb_rescheduledTo pb"
    by (auto simp: dflt_def)
  show ?thesis
    using assms d truthy_dflt_null [of "pb_rescheduledTo pb"]
    by (simp add: adminTransition_def Let_def split: option.splits)
qed

lemma adminTransition_Inr:
  assumes "adminTransition ext store i pb = (Inr b, s)"
  shows "\<exists>bk. objectIdValid ext i \<and> findBookingById store (castObjectId ext i) = Some bk"
  using assms
  by (auto simp: adminTransition_def Let_def split: option.splits if_splits)

lemma adminTransition_Inr_shape:
  assumes r: "adminTransition ext store i pb = (Inr b, s)"
  shows "\<exists>bk b0. findBookingById store (castObjectId ext i) = Some bk \<and> bid b0 = bid bk
           \<and> booking_inv b0 \<and> save ext store b0 = (Inr b, s)"
proof -
  from adminTransition_Inr [OF r] obtain bk
    where v: "objectIdValid ext i" and f: "findBookingById store (castObjectId ext i) = Some bk"
    by blast
  note eq = r [unfolded adminTransition_found [OF v f]]
  consider (a) "pb_action pb = JStr ''approve''"
    | (c) "pb_action pb = JStr ''cancel''"
    | (r) "pb_action pb = JStr ''reschedule''"
    | (o) "pb_action pb \<noteq> JStr ''approve''" "pb_action pb \<noteq> JStr ''cancel''"
          "pb_action pb \<noteq> JStr ''reschedule''"
    by blast
  then show ?thesis
  proof cases
    case a
    let ?b = "bk\<lparr>status := Approved, adminNote := dflt (pb_adminNote pb) (JStr []),
                  rescheduledTo := None\<rparr>"
    from eq a have "save ext store ?b = (Inr b, s)" by simp
    moreover have "bid ?b = bid bk" "booking_inv ?b" by (simp_all add: booking_inv_def)
    ultimately show ?thesis using f by blast
  next
    case c
    let ?b = "bk\<lparr>status := Cancelled, adminNote := dflt (pb_adminNote pb) (JStr []),
                  rescheduledTo := None\<rparr>"
    from eq c have "save ext store ?b = (Inr b, s)" by simp
    moreover have "bid ?b = bid bk" "booking_inv ?b" by (simp_all add: booking_inv_def)
    ultimately show ?thesis using f by blast
  next
    case r
    from eq r obtain dt where dt: "newDate ext (pb_rescheduledTo pb) = Some dt"
        and t: "truthy (pb_rescheduledTo pb)"
      by (auto split: if_splits option.splits)
    let ?b = "bk\<lparr>status := Rescheduled, rescheduledTo := Some dt,
                  adminNote := dflt (pb_adminNote pb) (JStr [])\<rparr>"
    from eq r dt t have "save ext store ?b = (Inr b, s)" by simp
    moreover have "bid ?b = bid bk" "booking_inv ?b" by (simp_all add: booking_inv_def)
    ultimately show ?thesis using f by blast
  next
    case o
    with eq show ?thesis by simp
  qed
qed

lemma adminTransition_inv:
  assumes inv: "\<forall>x\<in>set store. booking_inv x"
      and r: "adminTransition ext store i pb = (Inr b, s)"
  shows "booking_inv b \<and> (\<forall>x\<in>set s. booking_inv x)
         \<and> findBookingById s (castObjectId ext i) = Some b"
proof -
  from adminTransition_Inr_shape [OF r] obtain bk b0
    where f: "findBookingById store (castObjectId ext i) = Some bk" and i: "bid b0 = bid bk"
      and b0: "booking_inv b0" and sv: "save ext store b0 = (Inr b, s)"
    by blast
  from save_Inr [OF sv] obtain n
    where b: "b = b0\<lparr>adminNote := n, updatedAt := now ext\<rparr>"
      and s: "s = saveBooking ext store (b0\<lparr>adminNote := n\<rparr>)"
    by blast
  let ?b1 = "b0\<lparr>adminNote := n\<rparr>"
  have b1: "booking_inv ?b1" "bid ?b1 = bid bk" using b0 i by (simp_all add: booking_inv_def)
  have bb: "b = ?b1\<lparr>updatedAt := now ext\<rparr>" using b by simp
  have "booking_inv b" using b b0 by (simp add: booking_inv_def)
  moreover have "\<forall>x\<in>set s. booking_inv x" unfolding s by (rule saveBooking_inv [OF inv b1(1)])
  moreover have "findBookingById s (castObjectId ext i) = Some b"
    unfolding s bb by (rule find_saveBooking [OF f b1(2)])
  ultimately show ?thesis by blast
qed

lemma adminTransition_Inl:
  "fst (adminTransition ext store i pb) = Inl e \<Longrightarrow> snd (adminTransition ext store i pb) = store"
  using save_Inl
  by (auto simp: adminTransition_def Let_def split: option.splits if_splits)

text \<open>
  C3 (as stated, refuted): \<open>reschedule\<close> does not accept every valid timestamp, and an
  action does not succeed with every note. The timestamp \<open>0\<close> is a valid date, but it is
  falsy, so the handler treats it as missing and answers \<open>ValidationError\<close>; and \<open>approve\<close>
  with a note that is an object is refused by \<open>save\<close>. The booking stays as it was.
\<close>

theorem reschedule_rejects_epoch:
  "newDate demo_ext (JNum (Fin 0)) = Some 0
   \<and> adminTransition demo_ext [demo_rescheduled] ''65f000000000000000000002''
         (demo_patch ''reschedule'' (JNum (Fin 0)))
       = (Inl (ValidationError ''Invalid rescheduledTo date''), [demo_rescheduled])
   \<and> adminTransition demo_ext [demo_rescheduled] ''65f000000000000000000002'' demo_object_note
       = (Inl (InternalError ''Server error''), [demo_rescheduled])
   \<and> status demo_rescheduled = Rescheduled"
proof -
  have f: "findBookingById [demo_rescheduled] (castObjectId demo_ext ''65f000000000000000000002'')
             = Some demo_rescheduled"
    unfolding demo_cast by (simp add: findBookingById_def demo_rescheduled_def demo_booking_def)
  note e = adminTransition_found [OF demo_valid(2) f]
  have 1: "newDate demo_ext (JNum (Fin 0)) = Some 0" by (simp add: demo_ext_def)
  have 2: "adminTransition demo_ext [demo_rescheduled] ''65f000000000000000000002''
         (demo_patch ''reschedule'' (JNum (Fin 0)))
       = (Inl (ValidationError ''Invalid rescheduledTo date''), [demo_rescheduled])"
    unfolding e by (simp add: demo_patch_def)
  have 3: "adminTransition demo_ext [demo_rescheduled] ''65f000000000000000000002'' demo_object_note
       = (Inl (InternalError ''Server error''), [demo_rescheduled])"
    unfolding e by (simp add: demo_object_note_def save_def dflt_def castString_def)
  have 4: "status demo_rescheduled = Rescheduled" by (simp add: demo_rescheduled_def)
  from 1 2 3 4 show ?thesis by (intro conjI)
qed

text \<open>
  C3 (amended): \<open>rescheduledTo\<close> is set only while the status is \<open>Rescheduled\<close>, and every
  operation keeps it so. A booking that \<open>create\<close> answers has status \<open>Pending\<close> and no
  \<open>rescheduledTo\<close>, and \<open>create\<close> does answer one for a request with the required fields, a
  date that parses and a document the schema accepts. On a booking that exists, with a
  note the schema can cast, \<open>approve\<close> answers with status \<open>Approved\<close> and \<open>rescheduledTo\<close>
  cleared, \<open>cancel\<close> with \<open>Cancelled\<close> and cleared, and \<open>reschedule\<close> with a truthy
  \<open>rescheduledTo\<close> that parses with \<open>Rescheduled\<close> and that timestamp; the booking answered
  is the one stored.
\<close>

theorem rescheduledTo_invariant:
  assumes inv: "\<forall>x\<in>set store. booking_inv x"
  shows "(create ext store uo cb = (Inr b, s) \<longrightarrow>
            status b = Pending \<and> rescheduledTo b = None \<and> (\<forall>x\<in>set s. booking_inv x))
       \<and> (u \<noteq> [] \<and> objectIdValid ext u \<and> truthy (cb_type cb) \<and> truthy (cb_duration cb)
            \<and> truthy (cb_platform cb) \<and> truthy (cb_scheduledAt cb)
            \<and> newDate ext (cb_scheduledAt cb) = Some t
            \<and> newBooking ext (castObjectId ext u) cb t = Some nb \<longrightarrow>
            create ext store (Some u) cb = (Inr nb, store @ [nb])
            \<and> status nb = Pending \<and> rescheduledTo nb = None)
       \<and> (adminTransition ext store i pb = (Inr b, s) \<longrightarrow>
            booking_inv b \<and> (\<forall>x\<in>set s. booking_inv x)
            \<and> findBookingById s (castObjectId ext i) = Some b)
       \<and> (objectIdValid ext i \<and> findBookingById store (castObjectId ext i) = Some bk
            \<and> castString ext (dflt (pb_adminNote pb) (JStr [])) = Some an \<longrightarrow>
            (pb_action pb = JStr ''approve'' \<longrightarrow>
               (\<exists>b' s'. adminTransition ext store i pb = (Inr b', s')
                  \<and> status b' = Approved \<and> rescheduledTo b' = None \<and> adminNote b' = an))
          \<and> (pb_action pb = JStr ''cancel'' \<longrightarrow>
               (\<exists>b' s'. adminTransition ext store i pb = (Inr b', s')
                  \<and> status b' = Cancelled \<and> rescheduledTo b' = None \<and> adminNote b' = an))
          \<and> (pb_action pb = JStr ''reschedule'' \<and> truthy (pb_rescheduledTo pb)
                \<and> newDate ext (pb_rescheduledTo pb) = Some dt \<longrightarrow>
               (\<exists>b' s'. adminTransition ext store i pb = (Inr b', s')
                  \<and> status b' = Rescheduled \<and> rescheduledTo b' = Some dt
                  \<and> adminNote b' = an)))"
proof (intro conjI impI)
  assume c: "create ext store uo cb = (Inr b, s)"
  from create_Inr [OF c] show "status b = Pending" "rescheduledTo b = None" by simp_all
  from create_Inr [OF c] have "s = store @ [b]" "booking_inv b"
    by (simp_all add: booking_inv_def)
  with inv show "\<forall>x\<in>set s. booking_inv x" by auto
next
  assume h: "u \<noteq> [] \<and> objectIdValid ext u \<and> truthy (cb_type cb) \<and> truthy (cb_duration cb)
            \<and> truthy (cb_platform cb) \<and> truthy (cb_scheduledAt cb)
            \<and> newDate ext (cb_scheduledAt cb) = Some t
            \<and> newBooking ext (castObjectId ext u) cb t = Some nb"
  then show "create ext store (Some u) cb = (Inr nb, store @ [nb])"
    by (simp add: create_def)
  from h have "newBooking ext (castObjectId ext u) cb t = Some nb" by simp
  from newBooking_Some [OF this] show "status nb = Pending" "rescheduledTo nb = None"
    by simp_all
next
  assume r: "adminTransition ext store i pb = (Inr b, s)"
  from adminTransition_inv [OF inv r]
  show "booking_inv b" "\<forall>x\<in>set s. booking_inv x"
    "findBookingById s (castObjectId ext i) = Some b"
    by simp_all
next
  assume h: "objectIdValid ext i \<and> findBookingById store (castObjectId ext i) = Some bk
            \<and> castString ext (dflt (pb_adminNote pb) (JStr [])) = Some an"
    and a: "pb_action pb = JStr ''approve''"
  from h have v: "objectIdValid ext i" "findBookingById store (castObjectId ext i) = Some bk"
    by simp_all
  from h a show "\<exists>b' s'. adminTransition ext store i pb = (Inr b', s')
          \<and> status b' = Approved \<and> rescheduledTo b' = None \<and> adminNote b' = an"
    unfolding adminTransition_found [OF v] by (simp add: save_def)
next
  assume h: "objectIdValid ext i \<and> findBookingById store (castObjectId ext i) = Some bk
            \<and> castString ext (dflt (pb_adminNote pb) (JStr [])) = Some an"
    and a: "pb_action pb = JStr ''cancel''"
  from h have v: "objectIdValid ext i" "findBookingById store (castObjectId ext i) = Some bk"
    by simp_all
  from h a show "\<exists>b' s'. adminTransition ext store i pb = (Inr b', s')
          \<and> status b' = Cancelled \<and> rescheduledTo b' = None \<and> adminNote b' = an"
    unfolding adminTransition_found [OF v] by (simp add: save_def)
next
  assume h: "objectIdValid ext i \<and> findBookingById store (castObjectId ext i) = Some bk
            \<and> castString ext (dflt (pb_adminNote pb) (JStr [])) = Some an"
    and a: "pb_action pb = JStr ''reschedule'' \<and> truthy (pb_rescheduledTo pb)
              \<and> newDate ext (pb_rescheduledTo pb) = Some dt"
  from h have v: "objectIdValid ext i" "findBookingById store (castObjectId ext i) = Some bk"
    by simp_all
  from h a show "\<exists>b' s'. adminTransition ext store i pb = (Inr b', s')
          \<and> status b' = Rescheduled \<and> rescheduledTo b' = Some dt \<and> adminNote b' = an"
    unfolding adminTransition_found [OF v] by (simp add: save_def)
qed

lemma demo_find:
  "findBookingById [demo_rescheduled] (castObjectId demo_ext ''65f000000000000000000002'')
     = Some demo_rescheduled"
  unfolding demo_cast by (simp add: findBookingById_def demo_rescheduled_def demo_booking_def)

lemma demo_note:
  "castString demo_ext (dflt (pb_adminNote (demo_patch a r)) (JStr [])) = Some (JStr ''ok'')"
  by (simp add: demo_patch_def dflt_def castString_def)

text \<open>
  C3, witness: a booking is created; a rescheduled booking is approved, and rescheduled
  again.
\<close>

theorem rescheduledTo_invariant_witness:
  "booking_inv demo_rescheduled
   \<and> rescheduledTo demo_rescheduled = Some 1893492000000
   \<and> create demo_ext [demo_rescheduled] (Some ''65f000000000000000000001'')
         (demo_body (JNum (Fin 30)))
       = (Inr (demo_booking (JNum (Fin 30))), [demo_rescheduled] @ [demo_booking (JNum (Fin 30))])
   \<and> status (demo_booking (JNum (Fin 30))) = Pending
   \<and> rescheduledTo (demo_booking (JNum (Fin 30))) = None
   \<and> (\<exists>b' s'. adminTransition demo_ext [demo_rescheduled] ''65f000000000000000000002''
                 (demo_patch ''approve'' JUndefined) = (Inr b', s')
         \<and> status b' = Approved \<and> rescheduledTo b' = None)
   \<and> (\<exists>b' s'. adminTransition demo_ext [demo_rescheduled] ''65f000000000000000000002''
                 (demo_patch ''reschedule'' (JNum (Fin 1900000000000))) = (Inr b', s')
         \<and> status b' = Rescheduled \<and> rescheduledTo b' = Some 1900000000000)"
proof -
  have inv: "\<forall>x\<in>set [demo_rescheduled]. booking_inv x"
    by (simp add: booking_inv_def demo_rescheduled_def)
  have v: "objectIdValid demo_ext ''65f000000000000000000002''" by (rule demo_valid)
  have a: "pb_action (demo_patch ''approve'' JUndefined) = JStr ''approve''"
    by (simp add: demo_patch_def)
  have r: "pb_action (demo_patch ''reschedule'' (JNum (Fin 1900000000000))) = JStr ''reschedule''
           \<and> truthy (pb_rescheduledTo (demo_patch ''reschedule'' (JNum (Fin 1900000000000))))
           \<and> newDate demo_ext (pb_rescheduledTo (demo_patch ''reschedule'' (JNum (Fin 1900000000000))))
               = Some 1900000000000"
    by (simp add: demo_patch_def demo_ext_def)
  have t: "rescheduledTo demo_rescheduled = Some 1893492000000"
    by (simp add: demo_rescheduled_def)
  have c: "''65f000000000000000000001'' \<noteq> [] \<and> objectIdValid demo_ext ''65f000000000000000000001''
      \<and> truthy (cb_type (demo_body (JNum (Fin 30)))) \<and> truthy (cb_duration (demo_body (JNum (Fin 30))))
      \<and> truthy (cb_platform (demo_body (JNum (Fin 30))))
      \<and> truthy (cb_scheduledAt (demo_body (JNum (Fin 30))))
      \<and> newDate demo_ext (cb_scheduledAt (demo_body (JNum (Fin 30)))) = Some 1893492000000
      \<and> newBooking demo_ext (castObjectId demo_ext ''65f000000000000000000001'')
            (demo_body (JNum (Fin 30))) 1893492000000 = Some (demo_booking (JNum (Fin 30)))"
    unfolding demo_cast using demo_valid(1) demo_newBooking [of "JNum (Fin 30)" "Fin 30"]
    by (simp add: demo_body_def demo_ext_def castNumber_def)
  note th = rescheduledTo_invariant [OF inv, where ext = demo_ext
      and i = "''65f000000000000000000002''" and bk = demo_rescheduled and an = "JStr ''ok''"]
  note th0 = th [where u = "''65f000000000000000000001''" and cb = "demo_body (JNum (Fin 30))"
      and t = 1893492000000 and nb = "demo_booking (JNum (Fin 30))"]
  note 0 = th0 [THEN conjunct2, THEN conjunct1, THEN mp, OF c]
  note h = conjI [OF v conjI [OF demo_find demo_note]]
  note tha = th [where pb = "demo_patch ''approve'' JUndefined"]
  note da = tha [THEN conjunct2, THEN conjunct2, THEN conjunct2, THEN mp, OF h,
      THEN conjunct1, THEN mp, OF a]
  have 1: "\<exists>b' s'. adminTransition demo_ext [demo_rescheduled] ''65f000000000000000000002''
                 (demo_patch ''approve'' JUndefined) = (Inr b', s')
         \<and> status b' = Approved \<and> rescheduledTo b' = None"
    using da by blast
  note thr = th [where pb = "demo_patch ''reschedule'' (JNum (Fin 1900000000000))"
      and dt = 1900000000000]
  note dr = thr [THEN conjunct2, THEN conjunct2, THEN conjunct2, THEN mp, OF h,
      THEN conjunct2, THEN conjunct2, THEN mp, OF r]
  have 2: "\<exists>b' s'. adminTransition demo_ext [demo_rescheduled] ''65f000000000000000000002''
                 (demo_patch ''reschedule'' (JNum (Fin 1900000000000))) = (Inr b', s')
         \<and> status b' = Rescheduled \<and> rescheduledTo b' = Some 1900000000000"
    using dr by blast
  from inv have i: "booking_inv demo_rescheduled" by simp
  from 0 have 01: "create demo_ext [demo_rescheduled] (Some ''65f000000000000000000001'')
         (demo_body (JNum (Fin 30)))
       = (Inr (demo_booking (JNum (Fin 30))), [demo_rescheduled] @ [demo_booking (JNum (Fin 30))])"
    and 02: "status (demo_booking (JNum (Fin 30))) = Pending"
    and 03: "rescheduledTo (demo_booking (JNum (Fin 30))) = None"
    by simp_all
  from i t 01 02 03 1 2 show ?thesis by (intro conjI)
qed

text \<open>
  C4: \<open>adminTransition\<close> fails with \<open>ValidationError\<close> on a malformed identifier, with
  \<open>NotFound\<close> when no booking has the identifier, with \<open>ValidationError\<close> when the action
  is \<open>reschedule\<close> and \<open>rescheduledTo\<close> is missing, falsy or not a date, and with
  \<open>ValidationError\<close> on any other action; the store, and so the booking, is left as it was.
\<close>

theorem adminTransition_failures:
  "(\<not> objectIdValid ext i \<longrightarrow>
      adminTransition ext store i pb = (Inl (ValidationError ''Invalid booking id''), store))
   \<and> (objectIdValid ext i \<and> findBookingById store (castObjectId ext i) = None \<longrightarrow>
      adminTransition ext store i pb = (Inl (NotFound ''Booking not found''), store))
   \<and> (objectIdValid ext i \<and> findBookingById store (castObjectId ext i) = Some bk
        \<and> pb_action pb = JStr ''reschedule''
        \<and> (\<not> truthy (pb_rescheduledTo pb) \<or> newDate ext (pb_rescheduledTo pb) = None) \<longrightarrow>
      adminTransition ext store i pb = (Inl (ValidationError ''Invalid rescheduledTo date''), store)
      \<and> findBookingById (snd (adminTransition ext store i pb)) (castObjectId ext i) = Some bk)
   \<and> (objectIdValid ext i \<and> findBookingById store (castObjectId ext i) = Some bk
        \<and> pb_action pb \<noteq> JStr ''approve'' \<and> pb_action pb \<noteq> JStr ''cancel''
        \<and> pb_action pb \<noteq> JStr ''reschedule'' \<longrightarrow>
      adminTransition ext store i pb = (Inl (ValidationError ''Invalid action''), store)
      \<and> findBookingById (snd (adminTransition ext store i pb)) (castObjectId ext i) = Some bk)"
proof (intro conjI impI)
  assume "\<not> objectIdValid ext i"
  then show "adminTransition ext store i pb = (Inl (ValidationError ''Invalid booking id''), store)"
    by (simp add: adminTransition_def)
next
  assume "objectIdValid ext i \<and> findBookingById store (castObjectId ext i) = None"
  then show "adminTransition ext store i pb = (Inl (NotFound ''Booking not found''), store)"
    by (simp add: adminTransition_def)
next
  assume h: "objectIdValid ext i \<and> findBookingById store (castObjectId ext i) = Some bk
        \<and> pb_action pb = JStr ''reschedule''
        \<and> (\<not> truthy (pb_rescheduledTo pb) \<or> newDate ext (pb_rescheduledTo pb) = None)"
  then have v: "objectIdValid ext i" and f: "findBookingById store (castObjectId ext i) = Some bk" by simp_all
  from h show e: "adminTransition ext store i pb
                   = (Inl (ValidationError ''Invalid rescheduledTo date''), store)"
    unfolding adminTransition_found [OF v f] by auto
  show "findBookingById (snd (adminTransition ext store i pb)) (castObjectId ext i) = Some bk"
    unfolding e using f by simp
next
  assume h: "objectIdValid ext i \<and> findBookingById store (castObjectId ext i) = Some bk
        \<and> pb_action pb \<noteq> JStr ''approve'' \<and> pb_action pb \<noteq> JStr ''cancel''
        \<and> pb_action pb \<noteq> JStr ''reschedule''"
  then have v: "objectIdValid ext i" and f: "findBookingById store (castObjectId ext i) = Some bk" by simp_all
  from h show e: "adminTransition ext store i pb = (Inl (ValidationError ''Invalid action''), store)"
    unfolding adminTransition_found [OF v f] by simp
  show "findBookingById (snd (adminTransition ext store i pb)) (castObjectId ext i) = Some bk"
    unfolding e using f by simp
qed

text \<open>
  C4, witness: one request for each failure.
\<close>

theorem adminTransition_failures_witness:
  "\<not> objectIdValid demo_ext ''42''
   \<and> adminTransition demo_ext [demo_rescheduled] ''42'' (demo_patch ''approve'' JUndefined)
       = (Inl (ValidationError ''Invalid booking id''), [demo_rescheduled])
   \<and> adminTransition demo_ext [demo_rescheduled] ''65f000000000000000000001''
         (demo_patch ''approve'' JUndefined)
       = (Inl (NotFound ''Booking not found''), [demo_rescheduled])
   \<and> adminTransition demo_ext [demo_rescheduled] ''65f000000000000000000002''
         (demo_patch ''reschedule'' (JStr ''tomorrow''))
       = (Inl (ValidationError ''Invalid rescheduledTo date''), [demo_rescheduled])
   \<and> adminTransition demo_ext [demo_rescheduled] ''65f000000000000000000002''
         (demo_patch ''reschedule'' JUndefined)
       = (Inl (ValidationError ''Invalid rescheduledTo date''), [demo_rescheduled])
   \<and> adminTransition demo_ext [demo_rescheduled] ''65f000000000000000000002''
         (demo_patch ''delete'' JUndefined)
       = (Inl (ValidationError ''Invalid action''), [demo_rescheduled])"
proof -
  have nv: "\<not> objectIdValid demo_ext ''42''" by (simp add: demo_ext_def)
  have nf: "findBookingById [demo_rescheduled] (castObjectId demo_ext ''65f000000000000000000001'')
              = None"
    unfolding demo_cast by (simp add: findBookingById_def demo_rescheduled_def demo_booking_def)
  have r1: "pb_action (demo_patch ''reschedule'' (JStr ''tomorrow'')) = JStr ''reschedule''
      \<and> newDate demo_ext (pb_rescheduledTo (demo_patch ''reschedule'' (JStr ''tomorrow''))) = None"
    by (simp add: demo_patch_def demo_ext_def)
  have r2: "pb_action (demo_patch ''reschedule'' JUndefined) = JStr ''reschedule''
      \<and> \<not> truthy (pb_rescheduledTo (demo_patch ''reschedule'' JUndefined))"
    by (simp add: demo_patch_def)
  have o: "pb_action (demo_patch ''delete'' JUndefined) \<noteq> JStr ''approve''
      \<and> pb_action (demo_patch ''delete'' JUndefined) \<noteq> JStr ''cancel''
      \<and> pb_action (demo_patch ''delete'' JUndefined) \<noteq> JStr ''reschedule''"
    by (simp add: demo_patch_def)
  note v1 = demo_valid(1) and v2 = demo_valid(2)
  have 1: "adminTransition demo_ext [demo_rescheduled] ''42'' (demo_patch ''approve'' JUndefined)
       = (Inl (ValidationError ''Invalid booking id''), [demo_rescheduled])"
    using nv adminTransition_failures [of demo_ext "''42''" "[demo_rescheduled]"
         "demo_patch ''approve'' JUndefined"]
    by simp
  have 2: "adminTransition demo_ext [demo_rescheduled] ''65f000000000000000000001''
         (demo_patch ''approve'' JUndefined)
       = (Inl (NotFound ''Booking not found''), [demo_rescheduled])"
    using v1 nf adminTransition_failures [of demo_ext "''65f000000000000000000001''"
         "[demo_rescheduled]" "demo_patch ''approve'' JUndefined"]
    by simp
  have 3: "adminTransition demo_ext [demo_rescheduled] ''65f000000000000000000002''
         (demo_patch ''reschedule'' (JStr ''tomorrow''))
       = (Inl (ValidationError ''Invalid rescheduledTo date''), [demo_rescheduled])"
    using v2 demo_find r1 adminTransition_failures [of demo_ext "''65f000000000000000000002''"
         "[demo_rescheduled]" "demo_patch ''reschedule'' (JStr ''tomorrow'')" demo_rescheduled]
    by simp
  have 4: "adminTransition demo_ext [demo_rescheduled] ''65f000000000000000000002''
         (demo_patch ''reschedule'' JUndefined)
       = (Inl (ValidationError ''Invalid rescheduledTo date''), [demo_rescheduled])"
    using v2 demo_find r2 adminTransition_failures [of demo_ext "''65f000000000000000000002''"
         "[demo_rescheduled]" "demo_patch ''reschedule'' JUndefined" demo_rescheduled]
    by simp
  have 5: "adminTransition demo_ext [demo_rescheduled] ''65f000000000000000000002''
         (demo_patch ''delete'' JUndefined)
       = (Inl (ValidationError ''Invalid action''), [demo_rescheduled])"
    using v2 demo_find o adminTransition_failures [of demo_ext "''65f000000000000000000002''"
         "[demo_rescheduled]" "demo_patch ''delete'' JUndefined" demo_rescheduled]
    by simp
  from nv 1 2 3 4 5 show ?thesis by (intro conjI)
qed

text \<open>
  C10 (amended): presence of the required fields is tested by truthiness. A request whose
  duration is the number \<open>0\<close>, or whose type, platform or scheduledAt is the empty string,
  gets the same \<open>Missing required fields.\<close> answer as a request where the field is absent,
  and no request whose duration is the number \<open>0\<close> creates a booking.
\<close>

theorem create_presence_by_truthiness:
  assumes u: "u \<noteq> []"
      and f: "cb_duration cb = JNum (Fin 0) \<or> cb_type cb = JStr [] \<or> cb_platform cb = JStr []
              \<or> cb_scheduledAt cb = JStr []"
  shows "create ext store (Some u) cb = (Inl (ValidationError ''Missing required fields.''), store)
       \<and> create ext store (Some u) cb = create ext store (Some u) (cb\<lparr>cb_duration := JUndefined\<rparr>)
       \<and> create ext store (Some u) cb = create ext store (Some u) (cb\<lparr>cb_type := JUndefined\<rparr>)
       \<and> create ext store (Some u) cb = create ext store (Some u) (cb\<lparr>cb_platform := JUndefined\<rparr>)
       \<and> create ext store (Some u) cb = create ext store (Some u) (cb\<lparr>cb_scheduledAt := JUndefined\<rparr>)
       \<and> (\<forall>uo' store' cb' b s. cb_duration cb' = JNum (Fin 0) \<longrightarrow>
              create ext store' uo' cb' \<noteq> (Inr b, s))"
proof -
  have e: "create ext store (Some u) cb = (Inl (ValidationError ''Missing required fields.''), store)"
    using u f by (auto simp: create_def)
  have a: "\<And>cb'. \<not> truthy (cb_type cb') \<or> \<not> truthy (cb_duration cb')
                  \<or> \<not> truthy (cb_platform cb') \<or> \<not> truthy (cb_scheduledAt cb')
        \<Longrightarrow> create ext store (Some u) cb' = (Inl (ValidationError ''Missing required fields.''), store)"
    using u by (auto simp: create_def)
  have z: "\<forall>uo' store' cb' b s. cb_duration cb' = JNum (Fin 0) \<longrightarrow>
              create ext store' uo' cb' \<noteq> (Inr b, s)"
  proof (intro allI impI notI)
    fix uo' store' cb' b s
    assume d: "cb_duration cb' = JNum (Fin 0)" and c: "create ext store' uo' cb' = (Inr b, s)"
    from create_Inr [OF c] have "truthy (cb_duration cb')" by simp
    with d show False by simp
  qed
  show ?thesis
    unfolding e using a z by simp
qed

text \<open>
  C10, witness: a request with duration 0.
\<close>

theorem create_presence_by_truthiness_witness:
  "''65f000000000000000000001'' \<noteq> []
   \<and> cb_duration (demo_body (JNum (Fin 0))) = JNum (Fin 0)
   \<and> create demo_ext [] (Some ''65f000000000000000000001'') (demo_body (JNum (Fin 0)))
       = (Inl (ValidationError ''Missing required fields.''), [])
   \<and> create demo_ext [] (Some ''65f000000000000000000001'') (demo_body (JNum (Fin 0)))
       = create demo_ext [] (Some ''65f000000000000000000001'') (demo_body JUndefined)"
proof -
  have u: "''65f000000000000000000001'' \<noteq> []" by simp
  have d: "cb_duration (demo_body (JNum (Fin 0))) = JNum (Fin 0)" by (simp add: demo_body_def)
  have x: "(demo_body (JNum (Fin 0)))\<lparr>cb_duration := JUndefined\<rparr> = demo_body JUndefined"
    by (simp add: demo_body_def)
  note t = create_presence_by_truthiness [OF u disjI1, OF d, of demo_ext "[]"]
  from t have 1: "create demo_ext [] (Some ''65f000000000000000000001'') (demo_body (JNum (Fin 0)))
       = (Inl (ValidationError ''Missing required fields.''), [])"
    by (rule conjunct1)
  from t have 2: "create demo_ext [] (Some ''65f000000000000000000001'') (demo_body (JNum (Fin 0)))
       = create demo_ext [] (Some ''65f000000000000000000001'')
           ((demo_body (JNum (Fin 0)))\<lparr>cb_duration := JUndefined\<rparr>)"
    by blast
  from u d 1 2 [unfolded x] show ?thesis by blast
qed

text \<open>
  C10 (as stated, refuted): a booking with duration 0 can be created. The string \<open>"0"\<close> is
  truthy, so it passes the presence check, and the schema casts it to the number 0.
\<close>

theorem create_stores_zero_duration:
  "truthy (JStr ''0'')
   \<and> create demo_ext [] (Some ''65f000000000000000000001'') (demo_body (JStr ''0''))
       = (Inr (demo_booking (JNum (Fin 0))), [demo_booking (JNum (Fin 0))])
   \<and> duration (demo_booking (JNum (Fin 0))) = JNum (Fin 0)"
proof -
  have t: "truthy (JStr ''0'')" by simp
  have c: "castNumber (JStr ''0'') = Some (Fin 0)" by (rule castNumber_examples)
  have d: "duration (demo_booking (JNum (Fin 0))) = JNum (Fin 0)" by (simp add: demo_booking_def)
  from t demo_create [OF c t] d show ?thesis by (intro conjI)
qed

section \<open>Properties of access control and accounts\<close>

lemma demo_bearer: "bearer (Some ''Bearer tok-ada'') = Some ''tok-ada''"
  by (simp add: bearer_def)

lemma demo_verify: "jwtVerify demo_ext ''tok-ada'' = Some demo_payload"
  by (simp add: demo_ext_def demo_payload_def)

lemma demo_find_banned:
  "findUserById [demo_banned_admin] ''65f000000000000000000001'' = Some demo_banned_admin"
  by (simp add: findUserById_def demo_banned_admin_def demo_admin_def)

lemma demo_find_member:
  "findUserById [demo_member] ''65f000000000000000000001'' = Some demo_member"
  by (simp add: findUserById_def demo_member_def demo_admin_def)

lemma adminAuth_verified:
  assumes "bearer header = Some token" "jwtVerify ext token = Some pl" "p_id pl = Some i"
    "i \<noteq> []" "objectIdValid ext i"
  shows "adminAuth ext users header =
     (case findUserById users (castObjectId ext i) of
        None \<Rightarrow> Inl (Unauthorized ''Unauthorized'')
      | Some u \<Rightarrow> if role u \<noteq> Admin then Inl (Forbidden ''Forbidden: admin only'' None)
                  else Inr (pl, u))"
  using assms by (simp add: adminAuth_def)

text \<open>
  C1 (as stated, refuted): the admin guard does not deny a banned user. An admin whose
  fresh record has \<open>isBanned\<close> set, with a token that verifies, is let through.
\<close>

theorem adminAuth_admits_banned_admin:
  "isBanned demo_banned_admin
   \<and> jwtVerify demo_ext ''tok-ada'' = Some demo_payload
   \<and> adminAuth demo_ext [demo_banned_admin] (Some ''Bearer tok-ada'')
       = Inr (demo_payload, demo_banned_admin)"
proof -
  have b: "isBanned demo_banned_admin" "role demo_banned_admin = Admin"
    by (simp_all add: demo_banned_admin_def demo_admin_def)
  have i: "p_id demo_payload = Some ''65f000000000000000000001''"
    by (simp add: demo_payload_def)
  have e: "''65f000000000000000000001'' \<noteq> []" by simp
  from adminAuth_verified [OF demo_bearer demo_verify i e demo_valid(1), of "[demo_banned_admin]"]
  have "adminAuth demo_ext [demo_banned_admin] (Some ''Bearer tok-ada'')
       = Inr (demo_payload, demo_banned_admin)"
    by (simp add: demo_cast demo_find_banned b)
  with b demo_verify show ?thesis by simp
qed

text \<open>
  C1 (amended): for a token that verifies and carries an identifier, the admin guard
  decides on the record it fetches from the store: \<open>Unauthorized\<close> when no user has the
  identifier, \<open>Forbidden\<close> when the fresh role is not admin, and otherwise access with the
  payload and the fresh record attached. The role in the token and the ban state of the
  record play no part.
\<close>

theorem adminAuth_fresh_record:
  assumes "bearer header = Some token" and "jwtVerify ext token = Some pl"
      and "p_id pl = Some i" and "i \<noteq> []" and "objectIdValid ext i"
  shows "(findUserById users (castObjectId ext i) = None \<longrightarrow>
            adminAuth ext users header = Inl (Unauthorized ''Unauthorized''))
       \<and> (\<forall>u. findUserById users (castObjectId ext i) = Some u \<and> role u \<noteq> Admin \<longrightarrow>
            adminAuth ext users header = Inl (Forbidden ''Forbidden: admin only'' None))
       \<and> (\<forall>u. findUserById users (castObjectId ext i) = Some u \<and> role u = Admin \<longrightarrow>
            adminAuth ext users header = Inr (pl, u))"
  unfolding adminAuth_verified [OF assms] by simp

text \<open>
  C1, witness: a token issued to an admin, after the demotion and after the deletion.
\<close>

theorem adminAuth_fresh_record_witness:
  "bearer (Some ''Bearer tok-ada'') = Some ''tok-ada''
   \<and> jwtVerify demo_ext ''tok-ada'' = Some demo_payload
   \<and> p_role demo_payload = Some Admin
   \<and> findUserById [demo_member] ''65f000000000000000000001'' = Some demo_member
   \<and> adminAuth demo_ext [demo_member] (Some ''Bearer tok-ada'')
       = Inl (Forbidden ''Forbidden: admin only'' None)
   \<and> adminAuth demo_ext [] (Some ''Bearer tok-ada'') = Inl (Unauthorized ''Unauthorized'')"
proof -
  have i: "p_id demo_payload = Some ''65f000000000000000000001''"
    and r: "p_role demo_payload = Some Admin"
    by (simp_all add: demo_payload_def)
  have e: "''65f000000000000000000001'' \<noteq> []" by simp
  have m: "role demo_member \<noteq> Admin" by (simp add: demo_member_def)
  have n: "findUserById [] ''65f000000000000000000001'' = None" by (simp add: findUserById_def)
  note t = adminAuth_fresh_record [OF demo_bearer demo_verify i e demo_valid(1)]
  from t [of "[demo_member]", unfolded demo_cast] demo_find_member m
  have 1: "adminAuth demo_ext [demo_member] (Some ''Bearer tok-ada'')
       = Inl (Forbidden ''Forbidden: admin only'' None)"
    by simp
  from t [of "[]", unfolded demo_cast] n
  have 2: "adminAuth demo_ext [] (Some ''Bearer tok-ada'') = Inl (Unauthorized ''Unauthorized'')"
    by simp
  from demo_bearer demo_verify r demo_find_member 1 2 show ?thesis by (intro conjI)
qed

lemma demo_normalize: "js_trim (toLowerCase '' Ada@Example.org '') = ''ada@example.org''"
  by (simp add: js_trim_def toLowerCase_def lower_char_def js_ws_def)

text \<open>
  C2: when the user found for the email is banned, login issues no token whatever the
  password, and with a password supplied it answers \<open>Forbidden\<close> with the ban reason (the
  default text when the stored reason is empty) and the end of the ban.
\<close>

theorem login_banned_forbidden:
  assumes e: "lb_email body = JStr e" and ne: "e \<noteq> []"
      and f: "find (\<lambda>u. email u = js_trim (toLowerCase e)) users = Some u"
      and b: "isBanned u"
  shows "(\<forall>tok obj. login ext users body \<noteq> Inr (tok, obj))
       \<and> (truthy (lb_password body) \<longrightarrow>
            login ext users body =
              Inl (Forbidden ''Account is banned.''
                     (Some (if banReason u = [] then ''No reason provided'' else banReason u,
                            bannedUntil u))))"
  using assms by (simp add: login_def dflt_def Let_def)

text \<open>
  C2, witness: a banned user with the correct password.
\<close>

theorem login_banned_forbidden_witness:
  "isBanned demo_banned_admin
   \<and> bcryptCompare demo_ext ''correct horse'' (passwordHash demo_banned_admin)
   \<and> login demo_ext [demo_banned_admin] (demo_login '' Ada@Example.org '' ''correct horse'')
       = Inl (Forbidden ''Account is banned.'' (Some (''spam'', Some 1900000000000)))"
proof -
  have b: "isBanned demo_banned_admin" by (simp add: demo_banned_admin_def)
  have c: "bcryptCompare demo_ext ''correct horse'' (passwordHash demo_banned_admin)"
    by (simp add: demo_ext_def demo_banned_admin_def demo_admin_def)
  have e: "lb_email (demo_login '' Ada@Example.org '' ''correct horse'') = JStr '' Ada@Example.org ''"
    and p: "truthy (lb_password (demo_login '' Ada@Example.org '' ''correct horse''))"
    by (simp_all add: demo_login_def)
  have ne: "'' Ada@Example.org '' \<noteq> []" by simp
  have f: "find (\<lambda>u. email u = js_trim (toLowerCase '' Ada@Example.org '')) [demo_banned_admin]
             = Some demo_banned_admin"
    unfolding demo_normalize by (simp add: demo_banned_admin_def demo_admin_def)
  have r: "banReason demo_banned_admin = ''spam''"
      "bannedUntil demo_banned_admin = Some 1900000000000"
    by (simp_all add: demo_banned_admin_def)
  from login_banned_forbidden [OF e ne f b, of demo_ext] p
  have "login demo_ext [demo_banned_admin] (demo_login '' Ada@Example.org '' ''correct horse'')
       = Inl (Forbidden ''Account is banned.'' (Some (''spam'', Some 1900000000000)))"
    by (simp add: r)
  with b c show ?thesis by (intro conjI)
qed

text \<open>
  When the target identifier is, character for character, the identifier in the actor's
  token, \<open>deleteUser\<close> and \<open>banUser\<close> fail with \<open>ValidationError\<close>, and so does \<open>setRole\<close>
  with a role other than admin; the store is left as it was. \<open>setRole\<close> fails with
  \<open>ValidationError\<close> for any role outside member and admin.
\<close>

lemma self_check_same_spelling:
  assumes "p_id pl = Some i"
  shows "(\<exists>m. deleteUser ext users pl i = (Inl (ValidationError m), users))
       \<and> (\<exists>m. banUser ext users pl i bb = (Inl (ValidationError m), users))
       \<and> (r \<noteq> JStr ''admin'' \<longrightarrow>
             (\<exists>m. setRole ext users pl i r = (Inl (ValidationError m), users)))
       \<and> (r \<noteq> JStr ''member'' \<and> r \<noteq> JStr ''admin'' \<longrightarrow>
             setRole ext users pl' j r = (Inl (ValidationError ''Invalid role''), users))"
  using assms by (simp add: deleteUser_def banUser_def setRole_def)

lemma demo_find_admin:
  "findUserById [demo_admin] ''65f000000000000000000001'' = Some demo_admin"
  by (simp add: findUserById_def demo_admin_def)

text \<open>
  C5: the self check compares spellings, the store compares ObjectIds. An admin who sends
  their own identifier with an upper-case hex digit passes the check \<open>req.user?.id === id\<close>
  and is deleted, demoted or banned by their own request.
\<close>

theorem admin_self_check_bypassed:
  "p_id demo_payload = Some ''65f000000000000000000001''
   \<and> uid demo_admin = ''65f000000000000000000001''
   \<and> role demo_admin = Admin
   \<and> castObjectId demo_ext ''65F000000000000000000001'' = uid demo_admin
   \<and> deleteUser demo_ext [demo_admin] demo_payload ''65F000000000000000000001''
       = (Inr ''User deleted.'', [])
   \<and> setRole demo_ext [demo_admin] demo_payload ''65F000000000000000000001'' (JStr ''member'')
       = (Inr (demo_admin\<lparr>role := Member, userUpdatedAt := 1700000000000\<rparr>),
          [demo_admin\<lparr>role := Member, userUpdatedAt := 1700000000000\<rparr>])
   \<and> banUser demo_ext [demo_admin] demo_payload ''65F000000000000000000001''
         \<lparr> bb_reason = None, bb_until = JNull \<rparr>
       = (Inr (demo_admin\<lparr>isBanned := True, banReason := ''No reason provided'',
                           bannedUntil := None, userUpdatedAt := 1700000000000\<rparr>),
          [demo_admin\<lparr>isBanned := True, banReason := ''No reason provided'',
                      bannedUntil := None, userUpdatedAt := 1700000000000\<rparr>])"
proof -
  have p: "p_id demo_payload = Some ''65f000000000000000000001''"
    by (simp add: demo_payload_def)
  have u: "uid demo_admin = ''65f000000000000000000001''" "role demo_admin = Admin"
    by (simp_all add: demo_admin_def)
  have c: "castObjectId demo_ext ''65F000000000000000000001'' = uid demo_admin"
    unfolding u by (rule demo_cast)
  have n: "now demo_ext = 1700000000000" by (simp add: demo_ext_def)
  have 1: "deleteUser demo_ext [demo_admin] demo_payload ''65F000000000000000000001''
       = (Inr ''User deleted.'', [])"
    using demo_valid(3) demo_find_admin
    by (simp add: deleteUser_def p demo_cast u)
  have 2: "setRole demo_ext [demo_admin] demo_payload ''65F000000000000000000001'' (JStr ''member'')
       = (Inr (demo_admin\<lparr>role := Member, userUpdatedAt := 1700000000000\<rparr>),
          [demo_admin\<lparr>role := Member, userUpdatedAt := 1700000000000\<rparr>])"
    using demo_valid(3) demo_find_admin
    by (simp add: setRole_def p demo_cast u n Let_def)
  have 3: "banUser demo_ext [demo_admin] demo_payload ''65F000000000000000000001''
         \<lparr> bb_reason = None, bb_until = JNull \<rparr>
       = (Inr (demo_admin\<lparr>isBanned := True, banReason := ''No reason provided'',
                           bannedUntil := None, userUpdatedAt := 1700000000000\<rparr>),
          [demo_admin\<lparr>isBanned := True, banReason := ''No reason provided'',
                      bannedUntil := None, userUpdatedAt := 1700000000000\<rparr>])"
    using demo_valid(3) demo_find_admin
    by (simp add: banUser_def p demo_cast u n Let_def dflt_def)
  from p u c 1 2 3 show ?thesis by (intro conjI)
qed

lemma js_delete_absent: "k \<notin> fst ` set (js_delete k obj)"
  by (auto simp: js_delete_def)

lemma without_hash_delete: "without_hash (js_delete ''passwordHash'' (toObject d)) d"
  unfolding without_hash_def using js_delete_absent [of "''passwordHash''" "toObject d"]
  by (auto simp: js_delete_def)

lemma sanitizeUser_Some: "sanitizeUser (Some d) = Some (js_delete ''passwordHash'' (toObject d))"
  by (simp add: sanitizeUser_def)

lemma find_in_set: "find P xs = Some x \<Longrightarrow> x \<in> set xs"
  by (induction xs) (auto split: if_splits)

lemma updateById_member:
  "findUserById users i = Some u \<Longrightarrow> f u \<in> set (updateById i f users)"
  unfolding findUserById_def by (induction users) (auto split: if_splits)

lemma register_Inr:
  assumes "register ext users rb = (Inr r, users')"
  shows "\<exists>d. r = sanitizeUser (Some d) \<and> d \<in> set users'"
  using assms by (auto simp: register_def Let_def split: if_splits)

lemma login_Inr:
  assumes "login ext users lb = Inr (tok, r)"
  shows "\<exists>d. r = sanitizeUser (Some d) \<and> d \<in> set users"
  using assms
  by (auto simp: login_def Let_def split: if_splits jsval.splits option.splits
           dest: find_in_set)

lemma getSelf_Inr:
  assumes "getSelf ext users pl = Inr r"
  shows "\<exists>d. r = sanitizeUser (Some d) \<and> d \<in> set users"
  using assms
  by (auto simp: getSelf_def findUserById_def split: if_splits option.splits dest: find_in_set)

lemma updateSelf_Inr:
  assumes "updateSelf ext users pl up = (Inr r, users')"
  shows "\<exists>d. r = sanitizeUser (Some d) \<and> d \<in> set users'"
  using assms
  by (auto simp: updateSelf_def Let_def split: if_splits option.splits
           intro!: updateById_member)

lemma sanitized_page: "list_all2 without_hash (sanitized (map toObject ds)) ds"
  by (induction ds) (simp_all add: sanitized_def without_hash_delete)

lemma sanitized_absent: "\<forall>obj\<in>set (sanitized objs). ''passwordHash'' \<notin> fst ` set obj"
  using js_delete_absent by (auto simp: sanitized_def)

text \<open>
  C6: the user object answered by \<open>register\<close>, \<open>login\<close>, \<open>getSelf\<close> and \<open>updateSelf\<close>
  is that of a stored document without its \<open>passwordHash\<close> property and with every other
  property kept; so is each object of the admin listing.
\<close>

theorem responses_hide_passwordHash:
  "(register ext users rb = (Inr r, users') \<longrightarrow>
      (\<exists>obj d. r = Some obj \<and> d \<in> set users' \<and> without_hash obj d))
   \<and> (login ext users lb = Inr (tok, r) \<longrightarrow>
      (\<exists>obj d. r = Some obj \<and> d \<in> set users \<and> without_hash obj d))
   \<and> (getSelf ext users pl = Inr r \<longrightarrow>
      (\<exists>obj d. r = Some obj \<and> d \<in> set users \<and> without_hash obj d))
   \<and> (updateSelf ext users pl up = (Inr r, users') \<longrightarrow>
      (\<exists>obj d. r = Some obj \<and> d \<in> set users' \<and> without_hash obj d))
   \<and> list_all2 without_hash (sanitized (map toObject ds)) ds
   \<and> (\<forall>obj\<in>set (sanitized objs). ''passwordHash'' \<notin> fst ` set obj)"
proof -
  have k: "\<And>us. \<exists>d. r = sanitizeUser (Some d) \<and> d \<in> set us
             \<Longrightarrow> \<exists>obj d. r = Some obj \<and> d \<in> set us \<and> without_hash obj d"
    using without_hash_delete by (auto simp: sanitizeUser_Some)
  show ?thesis
  proof (intro conjI impI)
    assume "register ext users rb = (Inr r, users')"
    from k [OF register_Inr [OF this]]
    show "\<exists>obj d. r = Some obj \<and> d \<in> set users' \<and> without_hash obj d" .
  next
    assume "login ext users lb = Inr (tok, r)"
    from k [OF login_Inr [OF this]]
    show "\<exists>obj d. r = Some obj \<and> d \<in> set users \<and> without_hash obj d" .
  next
    assume "getSelf ext users pl = Inr r"
    from k [OF getSelf_Inr [OF this]]
    show "\<exists>obj d. r = Some obj \<and> d \<in> set users \<and> without_hash obj d" .
  next
    assume "updateSelf ext users pl up = (Inr r, users')"
    from k [OF updateSelf_Inr [OF this]]
    show "\<exists>obj d. r = Some obj \<and> d \<in> set users' \<and> without_hash obj d" .
  next
    show "list_all2 without_hash (sanitized (map toObject ds)) ds" by (rule sanitized_page)
  next
    show "\<forall>obj\<in>set (sanitized objs). ''passwordHash'' \<notin> fst ` set obj"
      by (rule sanitized_absent)
  qed
qed

lemma demo_getSelf:
  "getSelf demo_ext [demo_admin] demo_payload = Inr (sanitizeUser (Some demo_admin))"
  using demo_valid(1)
  by (simp add: getSelf_def demo_payload_def demo_cast) (simp add: findUserById_def demo_admin_def)

text \<open>
  C6, witness: an admin reads their own profile.
\<close>

theorem responses_hide_passwordHash_witness:
  "map_of (toObject demo_admin) ''passwordHash'' = Some (JStr ''$correct horse'')
   \<and> (\<exists>obj. getSelf demo_ext [demo_admin] demo_payload = Inr (Some obj)
         \<and> without_hash obj demo_admin \<and> map_of obj ''passwordHash'' = None
         \<and> map_of obj ''email'' = Some (JStr ''ada@example.org''))"
proof -
  have h: "map_of (toObject demo_admin) ''passwordHash'' = Some (JStr ''$correct horse'')"
    by (simp add: toObject_def demo_admin_def)
  from responses_hide_passwordHash [where ext = demo_ext and users = "[demo_admin]"
         and pl = demo_payload and r = "sanitizeUser (Some demo_admin)"] demo_getSelf
  obtain obj d where o: "sanitizeUser (Some demo_admin) = Some obj"
      and d: "d \<in> set [demo_admin]" and w: "without_hash obj d"
    by blast
  from d have d': "d = demo_admin" by simp
  from o have v: "map_of obj ''passwordHash'' = None"
      "map_of obj ''email'' = Some (JStr ''ada@example.org'')"
    by (auto simp: sanitizeUser_def js_delete_def toObject_def demo_admin_def)
  from h o w d' v demo_getSelf show ?thesis by auto
qed

section \<open>Properties of the admin listings\<close>

lemma escape_class_syntax: "escape_class c = rx_syntax c"
  by (auto simp: escape_class_def rx_syntax_def)

lemma backslash_syntax: "rx_syntax (CHR 0x5C)"
  by (simp add: rx_syntax_def)

lemma rx_tokens_plain: "\<not> rx_syntax c \<Longrightarrow> rx_tokens (c # xs) = Lit c # rx_tokens xs"
  using backslash_syntax by (cases xs) auto

lemma rx_tokens_escaped:
  "rx_syntax d \<Longrightarrow> rx_tokens (CHR 0x5C # d # xs) = Lit d # rx_tokens xs"
  by simp

lemma rx_tokens_escapeRegExp: "rx_tokens (escapeRegExp q) = map Lit q"
proof (induction q)
  case Nil
  show ?case by (simp add: escapeRegExp_def)
next
  case (Cons c q)
  have e: "escapeRegExp (c # q) = (if rx_syntax c then [CHR 0x5C, c] else [c]) @ escapeRegExp q"
    by (simp add: escapeRegExp_def escape_class_syntax)
  show ?case
  proof (cases "rx_syntax c")
    case True
    then show ?thesis unfolding e using Cons.IH by (simp del: rx_tokens.simps add: rx_tokens_escaped)
  next
    case False
    then show ?thesis unfolding e using Cons.IH by (simp del: rx_tokens.simps add: rx_tokens_plain)
  qed
qed

lemma literal_of_Lit: "literal_of (map Lit q) = Some q"
  by (induction q) simp_all

lemma match_here_prefix: "match_here cs t = prefix (toLowerCase cs) (toLowerCase t)"
  by (induction cs t rule: match_here.induct) (simp_all add: toLowerCase_def)

lemma search_sublist: "search lit t = ci_substring lit t"
proof (induction t)
  case Nil
  show ?case by (cases lit) (simp_all add: ci_substring_def toLowerCase_def)
next
  case (Cons d ds)
  have "sublist (toLowerCase lit) (toLowerCase (d # ds))
          = (prefix (toLowerCase lit) (toLowerCase (d # ds)) \<or> sublist (toLowerCase lit) (toLowerCase ds))"
    by (simp add: toLowerCase_def sublist_Cons_right)
  with Cons show ?case by (simp add: match_here_prefix ci_substring_def)
qed

lemma regex_test_escaped: "regex_test_i (escapeRegExp q) s = Some (ci_substring q s)"
  by (simp add: regex_test_i_def rx_tokens_escapeRegExp literal_of_Lit search_sublist)

lemma field_matches_escaped:
  "field_matches (escapeRegExp q) f = Some (\<exists>s. f = JStr s \<and> ci_substring q s)"
  by (cases f) (simp_all add: field_matches_def regex_test_escaped)

lemma or_regex_escaped:
  "or_regex (escapeRegExp q) fs = Some (\<exists>s. JStr s \<in> set fs \<and> ci_substring q s)"
  by (induction fs) (auto simp: field_matches_escaped)

text \<open>
  C8: the search text \<open>q\<close> of a listing (the trimmed parameter) is escaped so that every
  token of the pattern is a literal character, and the filter passes exactly the records
  in which \<open>q\<close> occurs, case aside, as a substring of one of the searched fields: notes,
  platformDetails and platform for bookings, email, username, firstName, lastName and
  phone for users.
\<close>

theorem search_is_literal_substring:
  assumes "js_trim (or_default (q_q query) []) = q" and "q \<noteq> []"
  shows "rx_tokens (escapeRegExp q) = map Lit q
       \<and> bookingFilter query b =
           Some (statusFilter query b
                 \<and> (\<exists>s. JStr s \<in> {userNotes b, platformDetails b, platform b} \<and> ci_substring q s))
       \<and> userFilter query u =
           Some (\<exists>s. s \<in> {email u, username u, firstName u, lastName u, phone u}
                     \<and> ci_substring q s)"
proof (intro conjI)
  show "rx_tokens (escapeRegExp q) = map Lit q" by (rule rx_tokens_escapeRegExp)
  show "bookingFilter query b =
           Some (statusFilter query b
                 \<and> (\<exists>s. JStr s \<in> {userNotes b, platformDetails b, platform b} \<and> ci_substring q s))"
    using assms by (simp del: or_regex.simps add: bookingFilter_def or_regex_escaped)
  show "userFilter query u =
           Some (\<exists>s. s \<in> {email u, username u, firstName u, lastName u, phone u}
                     \<and> ci_substring q s)"
    using assms by (auto simp del: or_regex.simps simp add: userFilter_def or_regex_escaped)
qed

lemma demo_trim: "js_trim (or_default (q_q (demo_query (Some '' a.*b '') None None)) []) = ''a.*b''"
  by (simp add: demo_query_def or_default_def js_trim_def js_ws_def)

lemma demo_escape: "escapeRegExp ''a.*b'' = [CHR ''a'', CHR 0x5C, CHR ''.'', CHR 0x5C, CHR ''*'', CHR ''b'']"
  by (simp add: escapeRegExp_def escape_class_def)

lemma demo_ci_yes: "ci_substring ''a.*b'' ''Call A.*B first''"
  by (simp add: ci_substring_def toLowerCase_def lower_char_def sublist_code)

lemma demo_ci_no: "\<not> ci_substring ''a.*b'' ''axxb''" "\<not> ci_substring ''a.*b'' ''zoom''"
  "\<not> ci_substring ''a.*b'' []"
  by (simp_all add: ci_substring_def toLowerCase_def lower_char_def sublist_code)

text \<open>
  C8, witness: the query \<open>a.*b\<close> finds the text that holds these four characters and
  not the text \<open>axxb\<close>.
\<close>

theorem search_is_literal_substring_witness:
  "js_trim (or_default (q_q (demo_query (Some '' a.*b '') None None)) []) = ''a.*b''
   \<and> escapeRegExp ''a.*b'' = [CHR ''a'', CHR 0x5C, CHR ''.'', CHR 0x5C, CHR ''*'', CHR ''b'']
   \<and> rx_tokens (escapeRegExp ''a.*b'') = [Lit CHR ''a'', Lit CHR ''.'', Lit CHR ''*'', Lit CHR ''b'']
   \<and> bookingFilter (demo_query (Some '' a.*b '') None None) (demo_noted ''Call A.*B first'') = Some True
   \<and> bookingFilter (demo_query (Some '' a.*b '') None None) (demo_noted ''axxb'') = Some False"
proof -
  have ne: "''a.*b'' \<noteq> []" by simp
  note t = search_is_literal_substring [OF demo_trim ne]
  have f: "userNotes (demo_noted n) = JStr n" "platformDetails (demo_noted n) = JStr []"
      "platform (demo_noted n) = JStr ''zoom''" for n
    by (simp_all add: demo_noted_def demo_booking_def)
  have st: "statusFilter (demo_query (Some '' a.*b '') None None) b" for b
    by (simp add: statusFilter_def demo_query_def)
  from t have 1: "rx_tokens (escapeRegExp ''a.*b'') = [Lit CHR ''a'', Lit CHR ''.'', Lit CHR ''*'', Lit CHR ''b'']"
    by simp
  note b = t [THEN conjunct2, THEN conjunct1]
  have 2: "bookingFilter (demo_query (Some '' a.*b '') None None) (demo_noted ''Call A.*B first'') = Some True"
    unfolding b using demo_ci_yes st by (auto simp: f)
  have 3: "bookingFilter (demo_query (Some '' a.*b '') None None) (demo_noted ''axxb'') = Some False"
    unfolding b using demo_ci_no st by (auto simp: f)
  from demo_trim demo_escape 1 2 3 show ?thesis by (intro conjI)
qed

lemma parseInt10_examples:
  "parseInt10 ''1000'' = Some 1000" "parseInt10 ''1'' = Some 1" "parseInt10 ''50'' = Some 50"
  "parseInt10 ''20'' = Some 20" "parseInt10 ''-3'' = Some (- 3)" "parseInt10 ''0'' = Some 0"
  "parseInt10 '' 12px'' = Some 12" "parseInt10 ''abc'' = None" "parseInt10 ''first'' = None"
  by (simp_all add: parseInt10_def digit_val_def js_ws_def Let_def)

lemma paging_numeric:
  assumes "parseInt10 (or_default (q_page query) ''1'') = Some p"
      and "parseInt10 (or_default (q_limit query) d) = Some l"
  shows "paging d query = (Some (max 1 p), Some (min 100 (max 5 l)),
                           Some ((max 1 p - 1) * min 100 (max 5 l)))"
    and "1 \<le> max 1 p" and "5 \<le> min 100 (max 5 l)" and "min 100 (max 5 l) \<le> 100"
  using assms by (simp_all add: paging_def mathMax_def mathMin_def Let_def)

lemma paging_examples:
  "bookingsPaging (demo_query None (Some ''0'') (Some ''1000'')) = (Some 1, Some 100, Some 0)"
  "bookingsPaging (demo_query None (Some ''-3'') (Some ''1'')) = (Some 1, Some 5, Some 0)"
  "bookingsPaging (demo_query None None None) = (Some 1, Some 50, Some 0)"
  "usersPaging (demo_query None None None) = (Some 1, Some 20, Some 0)"
  by (simp_all add: bookingsPaging_def usersPaging_def paging_def demo_query_def or_default_def
        parseInt10_examples mathMax_def mathMin_def)

text \<open>
  C7: the clamps miss the parameter that is no number. With \<open>limit=abc\<close> the limit of a
  listing is NaN, not a value between 5 and 100, and with \<open>page=first\<close> the page is NaN,
  not a value from 1 up.
\<close>

theorem paging_not_a_number:
  "bookingsPaging (demo_query None (Some ''first'') (Some ''abc'')) = (None, None, None)
   \<and> usersPaging (demo_query None (Some ''first'') (Some ''abc'')) = (None, None, None)
   \<and> bookingsPaging (demo_query None None (Some ''abc'')) = (Some 1, None, None)
   \<and> usersPaging (demo_query None (Some ''first'') None) = (None, Some 20, None)"
  by (simp add: bookingsPaging_def usersPaging_def paging_def demo_query_def or_default_def
        parseInt10_examples mathMax_def mathMin_def)

end
